theory Spec2Isabelle
  imports Complex_Main "HOL-Library.Word"
begin

section \<open>Conventions of the embedding\<close>

text \<open>
  The firmware is an Arduino sketch (\<^verbatim>\<open>AMR_Complete.ino\<close>) with three classes,
  \<^verbatim>\<open>MotorDriver\<close>, \<^verbatim>\<open>Encoder\<close> and \<^verbatim>\<open>Odometry\<close>.  Every global object becomes a record,
  every function a state transformer on these records.

  \<^item> C \<^verbatim>\<open>float\<close> values are idealised as \<^typ>\<open>real\<close>: rounding error, NaN and infinities
    are outside the model.
  \<^item> \<^verbatim>\<open>unsigned long\<close> time stamps of \<^verbatim>\<open>millis()\<close> are \<^typ>\<open>32 word\<close>, so that
    \<^verbatim>\<open>millis() - start\<close> wraps as in C.
  \<^item> the interrupt-driven pulse counters (\<^verbatim>\<open>volatile long\<close>) are \<^typ>\<open>32 word\<close> inside the
    encoder, read as two's complement.
  \<^item> \<^verbatim>\<open>int\<close> speeds are \<^typ>\<open>int\<close>: every speed is clamped to \<open>-255..255\<close> before it is used.
  \<^item> \<^verbatim>\<open>long\<close> pulse readings and their differences in the navigation code are unbounded
    integers: a reading is at most \<open>2^31\<close> in magnitude and the code compares differences of
    readings taken a few thousand pulses apart.
  \<^item> \<^verbatim>\<open>delay\<close> calls are omitted, and so is the serial output except for the two lines by
    which \<^verbatim>\<open>handleAutoTurn\<close> reports how a turn ended.
\<close>

subsection \<open>Arduino helpers\<close>

text \<open>\<^verbatim>\<open>#define constrain(amt,low,high) ((amt)<(low)?(low):((amt)>(high)?(high):(amt)))\<close>\<close>

definition constrain :: "int \<Rightarrow> int \<Rightarrow> int \<Rightarrow> int" where
  "constrain amt low high = (if amt < low then low else if amt > high then high else amt)"

text \<open>C \<^verbatim>\<open>round\<close>: to the nearest integer, halves away from zero.\<close>

definition c_round :: "real \<Rightarrow> int" where
  "c_round x = (if 0 \<le> x then \<lfloor>x + 1/2\<rfloor> else - \<lfloor>- x + 1/2\<rfloor>)"

text \<open>The cast \<^verbatim>\<open>(long)f\<close> of a float: truncation towards zero.\<close>

definition c_trunc :: "real \<Rightarrow> int" where
  "c_trunc x = (if 0 \<le> x then \<lfloor>x\<rfloor> else \<lceil>x\<rceil>)"

section \<open>MotorDriver\<close>

definition MAX_SPEED :: int where "MAX_SPEED = 255"
definition DEFAULT_SPEED :: int where "DEFAULT_SPEED = 102"
definition TURN_SPEED :: int where "TURN_SPEED = 51"
definition MIN_SPEED :: int where "MIN_SPEED = 80"

text \<open>
  The four PWM outputs of the two BTS7960 bridges; \<^verbatim>\<open>analogWrite(pin, v)\<close> is a field update.
\<close>

record pwm_pins =
  MOTOR_LEFT_RPWM :: int
  MOTOR_LEFT_LPWM :: int
  MOTOR_RIGHT_RPWM :: int
  MOTOR_RIGHT_LPWM :: int

definition setLeftMotor :: "int \<Rightarrow> pwm_pins \<Rightarrow> pwm_pins" where
  "setLeftMotor speed0 p =
     (let speed = constrain speed0 (- MAX_SPEED) MAX_SPEED in
      if speed > 0 then
        (let speed = (if speed < MIN_SPEED then MIN_SPEED else speed)
         in p\<lparr>MOTOR_LEFT_RPWM := 0, MOTOR_LEFT_LPWM := speed\<rparr>)
      else if speed < 0 then
        (let absSpeed = - speed;
             absSpeed = (if absSpeed < MIN_SPEED then MIN_SPEED else absSpeed)
         in p\<lparr>MOTOR_LEFT_RPWM := absSpeed, MOTOR_LEFT_LPWM := 0\<rparr>)
      else p\<lparr>MOTOR_LEFT_RPWM := 0, MOTOR_LEFT_LPWM := 0\<rparr>)"

text \<open>
  The repository holds two versions of \<^verbatim>\<open>MotorDriver.cpp\<close>.  They agree on
  \<^verbatim>\<open>setLeftMotor\<close>.  In the version under \<^verbatim>\<open>AMR-main/\<close> (suffix \<open>_main\<close> below),
  \<^verbatim>\<open>setRightMotor\<close> mirrors \<^verbatim>\<open>setLeftMotor\<close>; in the other version, the one with one PID
  regulator per motor, it first scales the clamped speed by
  \<^verbatim>\<open>RIGHT_MOTOR_COMPENSATION = 0.85f\<close>.
\<close>

definition setRightMotor_main :: "int \<Rightarrow> pwm_pins \<Rightarrow> pwm_pins" where
  "setRightMotor_main speed0 p =
     (let speed = constrain speed0 (- MAX_SPEED) MAX_SPEED in
      if speed > 0 then
        (let speed = (if speed < MIN_SPEED then MIN_SPEED else speed)
         in p\<lparr>MOTOR_RIGHT_RPWM := 0, MOTOR_RIGHT_LPWM := speed\<rparr>)
      else if speed < 0 then
        (let absSpeed = - speed;
             absSpeed = (if absSpeed < MIN_SPEED then MIN_SPEED else absSpeed)
         in p\<lparr>MOTOR_RIGHT_RPWM := absSpeed, MOTOR_RIGHT_LPWM := 0\<rparr>)
      else p\<lparr>MOTOR_RIGHT_RPWM := 0, MOTOR_RIGHT_LPWM := 0\<rparr>)"

definition RIGHT_MOTOR_COMPENSATION :: real where
  "RIGHT_MOTOR_COMPENSATION = 85 / 100"

definition setRightMotor :: "int \<Rightarrow> pwm_pins \<Rightarrow> pwm_pins" where
  "setRightMotor speed0 p =
     (let speed = constrain speed0 (- MAX_SPEED) MAX_SPEED;
          compensatedSpeed = c_round (real_of_int speed * RIGHT_MOTOR_COMPENSATION);
          compensatedSpeed = constrain compensatedSpeed (- MAX_SPEED) MAX_SPEED in
      if compensatedSpeed > 0 then
        (let finalSpeed = compensatedSpeed;
             finalSpeed = (if finalSpeed < MIN_SPEED \<and> finalSpeed > 0 then MIN_SPEED else finalSpeed)
         in p\<lparr>MOTOR_RIGHT_RPWM := 0, MOTOR_RIGHT_LPWM := finalSpeed\<rparr>)
      else if compensatedSpeed < 0 then
        (let absSpeed = - compensatedSpeed;
             absSpeed = (if absSpeed < MIN_SPEED \<and> absSpeed > 0 then MIN_SPEED else absSpeed)
         in p\<lparr>MOTOR_RIGHT_RPWM := absSpeed, MOTOR_RIGHT_LPWM := 0\<rparr>)
      else p\<lparr>MOTOR_RIGHT_RPWM := 0, MOTOR_RIGHT_LPWM := 0\<rparr>)"

definition setBothMotors :: "int \<Rightarrow> int \<Rightarrow> pwm_pins \<Rightarrow> pwm_pins" where
  "setBothMotors leftSpeed rightSpeed p = setRightMotor rightSpeed (setLeftMotor leftSpeed p)"

definition setBothMotors_main :: "int \<Rightarrow> int \<Rightarrow> pwm_pins \<Rightarrow> pwm_pins" where
  "setBothMotors_main leftSpeed rightSpeed p =
     setRightMotor_main rightSpeed (setLeftMotor leftSpeed p)"

definition pins0 :: pwm_pins where
  "pins0 = \<lparr>MOTOR_LEFT_RPWM = 0, MOTOR_LEFT_LPWM = 0, MOTOR_RIGHT_RPWM = 0, MOTOR_RIGHT_LPWM = 0\<rparr>"

subsection \<open>Closed-loop velocity control\<close>

text \<open>
  The version with per-motor members keeps one PID regulator per wheel.  \<^verbatim>\<open>unsigned long\<close> and
  \<^verbatim>\<open>unsigned int\<close> members are 32-bit words; the extra argument \<open>now\<close> is the value that
  \<^verbatim>\<open>millis()\<close> returns inside \<^verbatim>\<open>updateVelocityControl\<close>.
\<close>

record MotorDriver =
  pins :: pwm_pins
  velocityControlEnabled :: bool
  lastPIDMillis :: "32 word"
  pidIntervalMs :: "32 word"
  targetPpsLeft :: real
  targetPpsRight :: real
  appliedPpsLeft :: real
  appliedPpsRight :: real
  KpL :: real
  KiL :: real
  KdL :: real
  integralL :: real
  prevErrorL :: real
  KpR :: real
  KiR :: real
  KdR :: real
  integralR :: real
  prevErrorR :: real
  integralClamp :: real
  rampTimeMs :: "32 word"

text \<open>
  The soft-start step, written out once per wheel in the source:
  \<^verbatim>\<open>if (applied < target) { applied += maxDelta; if (applied > target) applied = target; }
  else if (applied > target) { applied -= maxDelta; if (applied < target) applied = target; }\<close>
\<close>

definition ramp_step :: "real \<Rightarrow> real \<Rightarrow> real \<Rightarrow> real" where
  "ramp_step applied target maxDelta =
     (if applied < target then
        (let applied = applied + maxDelta in if applied > target then target else applied)
      else if applied > target then
        (let applied = applied - maxDelta in if applied < target then target else applied)
      else applied)"

text \<open>
  The anti-windup clamp:
  \<^verbatim>\<open>if (integral > integralClamp) integral = integralClamp;
  if (integral < -integralClamp) integral = -integralClamp;\<close>
\<close>

definition clamp_integral :: "real \<Rightarrow> real \<Rightarrow> real" where
  "clamp_integral integral clamp =
     (let integral = (if integral > clamp then clamp else integral)
      in if integral < - clamp then - clamp else integral)"

definition updateVelocityControl ::
    "int \<Rightarrow> int \<Rightarrow> 32 word \<Rightarrow> 32 word \<Rightarrow> MotorDriver \<Rightarrow> MotorDriver" where
  "updateVelocityControl leftDeltaPulses rightDeltaPulses dtMs now m =
     (if \<not> velocityControlEnabled m then m
      else if dtMs = 0 then m
      else if now - lastPIDMillis m < pidIntervalMs m then m
      else
        (let elapsed = now - lastPIDMillis m;
             dt = real (unat elapsed) / 1000;
             measPpsL = real_of_int leftDeltaPulses / dt;
             measPpsR = real_of_int rightDeltaPulses / dt;
             appliedL =
               (if rampTimeMs m > 0 then
                  ramp_step (appliedPpsLeft m) (targetPpsLeft m)
                    ((\<bar>targetPpsLeft m\<bar> / real (unat (rampTimeMs m))) * real (unat elapsed))
                else targetPpsLeft m);
             appliedR =
               (if rampTimeMs m > 0 then
                  ramp_step (appliedPpsRight m) (targetPpsRight m)
                    ((\<bar>targetPpsRight m\<bar> / real (unat (rampTimeMs m))) * real (unat elapsed))
                else targetPpsRight m);
             errorL = appliedL - measPpsL;
             intL = clamp_integral (integralL m + errorL * dt) (integralClamp m);
             derivativeL = (errorL - prevErrorL m) / dt;
             pidOutL = KpL m * errorL + KiL m * intL + KdL m * derivativeL;
             errorR = appliedR - measPpsR;
             intR = clamp_integral (integralR m + errorR * dt) (integralClamp m);
             derivativeR = (errorR - prevErrorR m) / dt;
             pidOutR = KpR m * errorR + KiR m * intR + KdR m * derivativeR;
             pwmLeft = constrain (c_round pidOutL) (- MAX_SPEED) MAX_SPEED;
             pwmRight = constrain (c_round (pidOutR * RIGHT_MOTOR_COMPENSATION))
                          (- MAX_SPEED) MAX_SPEED
         in m\<lparr>lastPIDMillis := now,
               appliedPpsLeft := appliedL, appliedPpsRight := appliedR,
               integralL := intL, prevErrorL := errorL,
               integralR := intR, prevErrorR := errorR,
               pins := setBothMotors pwmLeft pwmRight (pins m)\<rparr>))"

text \<open>
  The version of the driver under \<^verbatim>\<open>AMR-main/\<close> has a single regulator; its members carry the
  prefix \<open>m_\<close>.  Its compensation factor is \<^verbatim>\<open>1.1f\<close> and is applied to the PWM value of
  the right wheel.
\<close>

record MotorDriver_main =
  m_pins :: pwm_pins
  m_velocityControlEnabled :: bool
  m_lastPIDMillis :: "32 word"
  m_pidIntervalMs :: "32 word"
  m_targetPps :: real
  m_appliedPps :: real
  m_Kp :: real
  m_Ki :: real
  m_Kd :: real
  m_integral :: real
  m_prevError :: real
  m_integralClamp :: real
  m_rampTimeMs :: "32 word"

definition RIGHT_MOTOR_COMPENSATION_main :: real where
  "RIGHT_MOTOR_COMPENSATION_main = 11 / 10"

definition updateVelocityControl_main ::
    "int \<Rightarrow> int \<Rightarrow> 32 word \<Rightarrow> 32 word \<Rightarrow> MotorDriver_main \<Rightarrow> MotorDriver_main" where
  "updateVelocityControl_main leftDeltaPulses rightDeltaPulses dtMs now m =
     (if \<not> m_velocityControlEnabled m then m
      else if dtMs = 0 then m
      else if now - m_lastPIDMillis m < m_pidIntervalMs m then m
      else
        (let elapsed = now - m_lastPIDMillis m;
             dt = real (unat elapsed) / 1000;
             avgDeltaPulses = (real_of_int leftDeltaPulses + real_of_int rightDeltaPulses) / 2;
             measPps = avgDeltaPulses / dt;
             applied =
               (if m_rampTimeMs m > 0 then
                  ramp_step (m_appliedPps m) (m_targetPps m)
                    ((\<bar>m_targetPps m\<bar> / real (unat (m_rampTimeMs m))) * real (unat elapsed))
                else m_targetPps m);
             error = applied - measPps;
             integral = clamp_integral (m_integral m + error * dt) (m_integralClamp m);
             derivative = (error - m_prevError m) / dt;
             pidOutput = m_Kp m * error + m_Ki m * integral + m_Kd m * derivative;
             pwmBase = constrain (c_round pidOutput) (- MAX_SPEED) MAX_SPEED;
             pwmLeft = pwmBase;
             pwmRight = constrain (c_round (real_of_int pwmBase * RIGHT_MOTOR_COMPENSATION_main))
                          (- MAX_SPEED) MAX_SPEED
         in m\<lparr>m_lastPIDMillis := now, m_appliedPps := applied,
               m_integral := integral, m_prevError := error,
               m_pins := setBothMotors_main pwmLeft pwmRight (m_pins m)\<rparr>))"

text \<open>
  The state of the \<^verbatim>\<open>AMR-main/\<close> driver with its default members, after
  \<^verbatim>\<open>enableVelocityControl(true)\<close> at time 0 and \<^verbatim>\<open>setTargetPulsesPerSecond(1000)\<close>.
\<close>

definition pid_main0 :: MotorDriver_main where
  "pid_main0 = \<lparr>m_pins = pins0, m_velocityControlEnabled = True, m_lastPIDMillis = 0,
     m_pidIntervalMs = 50, m_targetPps = 1000, m_appliedPps = 0,
     m_Kp = 0.08, m_Ki = 0.02, m_Kd = 0.002, m_integral = 0, m_prevError = 0,
     m_integralClamp = 500, m_rampTimeMs = 800\<rparr>"

text \<open>The per-motor version in the corresponding state (its default ramp time is 600 ms).\<close>

definition pid0 :: MotorDriver where
  "pid0 = \<lparr>pins = pins0, velocityControlEnabled = True, lastPIDMillis = 0,
     pidIntervalMs = 50, targetPpsLeft = 1000, targetPpsRight = 1000,
     appliedPpsLeft = 0, appliedPpsRight = 0,
     KpL = 0.08, KiL = 0.02, KdL = 0.002, integralL = 0, prevErrorL = 0,
     KpR = 0.08, KiR = 0.02, KdR = 0.002, integralR = 0, prevErrorR = 0,
     integralClamp = 500, rampTimeMs = 600\<rparr>"

section \<open>Encoder\<close>

definition DEFAULT_PULSES_PER_REVOLUTION :: int where "DEFAULT_PULSES_PER_REVOLUTION = 3418"
definition WHEEL_DIAMETER_CM :: real where "WHEEL_DIAMETER_CM = 15.5"
definition WHEEL_CIRCUMFERENCE_CM :: real where "WHEEL_CIRCUMFERENCE_CM = pi * WHEEL_DIAMETER_CM"
definition WHEEL_BASE_CM :: real where "WHEEL_BASE_CM = 63.5"

text \<open>The static members of class \<^verbatim>\<open>Encoder\<close>.\<close>

record Encoder =
  leftPulses :: "32 word"
  rightPulses :: "32 word"
  pulsesPerRevolution :: int
  leftInverted :: bool
  rightInverted :: bool

definition Encoder_init :: Encoder where
  "Encoder_init = \<lparr>leftPulses = 0, rightPulses = 0,
     pulsesPerRevolution = DEFAULT_PULSES_PER_REVOLUTION,
     leftInverted = False, rightInverted = True\<rparr>"

text \<open>
  The interrupt handlers.  The two arguments are the channel levels that
  \<^verbatim>\<open>digitalRead\<close> returns inside the handler.
\<close>

definition leftEncoderISR :: "bool \<Rightarrow> bool \<Rightarrow> Encoder \<Rightarrow> Encoder" where
  "leftEncoderISR A B e =
     (let delta = (if A = B then - 1 else 1 :: int);
          delta = (if leftInverted e then - delta else delta)
      in e\<lparr>leftPulses := leftPulses e + word_of_int delta\<rparr>)"

definition rightEncoderISR :: "bool \<Rightarrow> bool \<Rightarrow> Encoder \<Rightarrow> Encoder" where
  "rightEncoderISR A B e =
     (let delta = (if A = B then - 1 else 1 :: int);
          delta = (if rightInverted e then - delta else delta)
      in e\<lparr>rightPulses := rightPulses e + word_of_int delta\<rparr>)"

text \<open>
  \<^verbatim>\<open>readLeft\<close> and \<^verbatim>\<open>readRight\<close> copy the counter between \<^verbatim>\<open>noInterrupts()\<close> and
  \<^verbatim>\<open>interrupts()\<close>; in the model a read is one step, never interleaved with a handler.
  The result is the \<^verbatim>\<open>long\<close> value of the counter.
\<close>

definition readLeft :: "Encoder \<Rightarrow> int" where
  "readLeft e = sint (leftPulses e)"

definition readRight :: "Encoder \<Rightarrow> int" where
  "readRight e = sint (rightPulses e)"

definition resetLeft :: "Encoder \<Rightarrow> Encoder" where
  "resetLeft e = e\<lparr>leftPulses := 0\<rparr>"

definition resetRight :: "Encoder \<Rightarrow> Encoder" where
  "resetRight e = e\<lparr>rightPulses := 0\<rparr>"

definition resetBoth :: "Encoder \<Rightarrow> Encoder" where
  "resetBoth e = e\<lparr>leftPulses := 0, rightPulses := 0\<rparr>"

definition getPulsesPerRevolution :: "Encoder \<Rightarrow> int" where
  "getPulsesPerRevolution e = pulsesPerRevolution e"

definition setPulsesPerRevolution :: "int \<Rightarrow> Encoder \<Rightarrow> Encoder" where
  "setPulsesPerRevolution v e = (if v > 0 then e\<lparr>pulsesPerRevolution := v\<rparr> else e)"

definition setLeftInverted :: "bool \<Rightarrow> Encoder \<Rightarrow> Encoder" where
  "setLeftInverted flag e = e\<lparr>leftInverted := flag\<rparr>"

definition setRightInverted :: "bool \<Rightarrow> Encoder \<Rightarrow> Encoder" where
  "setRightInverted flag e = e\<lparr>rightInverted := flag\<rparr>"


text \<open>
  What can happen to the encoder between two reads: a quadrature edge on either wheel, with
  the channel levels seen by the handler, or a change of an inversion flag.
\<close>

datatype enc_event =
    LeftEdge bool bool
  | RightEdge bool bool
  | SetLeftInv bool
  | SetRightInv bool

fun enc_step :: "Encoder \<Rightarrow> enc_event \<Rightarrow> Encoder" where
  "enc_step e (LeftEdge A B) = leftEncoderISR A B e"
| "enc_step e (RightEdge A B) = rightEncoderISR A B e"
| "enc_step e (SetLeftInv flag) = setLeftInverted flag e"
| "enc_step e (SetRightInv flag) = setRightInverted flag e"

definition enc_run :: "Encoder \<Rightarrow> enc_event list \<Rightarrow> Encoder" where
  "enc_run e evs = foldl enc_step e evs"

text \<open>
  The per-edge delta in the words of the specification: \<open>-1\<close> if the two channel levels are
  equal, \<open>+1\<close> otherwise, negated if the inversion flag of the wheel is set.
\<close>

definition spec_delta :: "bool \<Rightarrow> bool \<Rightarrow> bool \<Rightarrow> int" where
  "spec_delta inverted A B = (if inverted then - 1 else 1) * (if A = B then - 1 else 1)"

text \<open>
  The deltas of the left (right) wheel along a list of events, each taken with the
  inversion flag in force when the edge arrives.
\<close>

fun left_deltas :: "bool \<Rightarrow> enc_event list \<Rightarrow> int list" where
  "left_deltas flag [] = []"
| "left_deltas flag (LeftEdge A B # evs) = spec_delta flag A B # left_deltas flag evs"
| "left_deltas flag (SetLeftInv flag' # evs) = left_deltas flag' evs"
| "left_deltas flag (_ # evs) = left_deltas flag evs"

fun right_deltas :: "bool \<Rightarrow> enc_event list \<Rightarrow> int list" where
  "right_deltas flag [] = []"
| "right_deltas flag (RightEdge A B # evs) = spec_delta flag A B # right_deltas flag evs"
| "right_deltas flag (SetRightInv flag' # evs) = right_deltas flag' evs"
| "right_deltas flag (_ # evs) = right_deltas flag evs"

section \<open>Odometry\<close>





text \<open>
  The private members of class \<^verbatim>\<open>Odometry\<close>; \<^verbatim>\<open>x\<close>, \<^verbatim>\<open>y\<close> and \<^verbatim>\<open>theta\<close> carry the prefix
  \<open>odo_\<close>.  The encoder object behind the pointer \<^verbatim>\<open>encoder\<close> is passed as an argument.
\<close>

record Odometry =
  odo_x :: real
  odo_y :: real
  odo_theta :: real
  lastLeftPulses :: int
  lastRightPulses :: int

definition radiansToDegrees :: "real \<Rightarrow> real" where
  "radiansToDegrees radians = radians * 180 / pi"

definition degreesToRadians :: "real \<Rightarrow> real" where
  "degreesToRadians degrees = degrees * pi / 180"

definition Odometry_init :: "Encoder \<Rightarrow> real \<Rightarrow> real \<Rightarrow> real \<Rightarrow> Odometry" where
  "Odometry_init enc startX startY startTheta =
     \<lparr>odo_x = startX, odo_y = startY, odo_theta = degreesToRadians startTheta,
      lastLeftPulses = readLeft enc, lastRightPulses = readRight enc\<rparr>"



definition getX :: "Odometry \<Rightarrow> real" where "getX od = odo_x od"
definition getY :: "Odometry \<Rightarrow> real" where "getY od = odo_y od"
definition getTheta :: "Odometry \<Rightarrow> real" where "getTheta od = odo_theta od"
definition getThetaDegrees :: "Odometry \<Rightarrow> real" where
  "getThetaDegrees od = radiansToDegrees (odo_theta od)"



text \<open>The pose after \<^verbatim>\<open>odometry.init(0.0, 0.0, 0.0)\<close> with reset counters.\<close>

definition od_origin :: Odometry where
  "od_origin = \<lparr>odo_x = 0, odo_y = 0, odo_theta = 0, lastLeftPulses = 0, lastRightPulses = 0\<rparr>"

section \<open>The sketch: route execution, obstacle avoidance and automatic turns\<close>

subsection \<open>Open-loop motion primitives of the driver\<close>

text \<open>
  \<^verbatim>\<open>moveForward\<close> and \<^verbatim>\<open>stop\<close> are the same in both versions of the driver.  For
  \<^verbatim>\<open>setBothMotors\<close> the sketch is given the version under \<^verbatim>\<open>AMR-main/\<close>, the one its header
  comment describes (compensation factor 1.1, a single PID regulator).
\<close>

definition moveForward :: "int \<Rightarrow> pwm_pins \<Rightarrow> pwm_pins" where
  "moveForward speed0 p =
     (let speed = constrain speed0 MIN_SPEED MAX_SPEED
      in p\<lparr>MOTOR_LEFT_RPWM := 0, MOTOR_LEFT_LPWM := speed,
            MOTOR_RIGHT_RPWM := 0, MOTOR_RIGHT_LPWM := speed\<rparr>)"

definition stop :: "pwm_pins \<Rightarrow> pwm_pins" where
  "stop p = p\<lparr>MOTOR_LEFT_RPWM := 0, MOTOR_LEFT_LPWM := 0,
               MOTOR_RIGHT_RPWM := 0, MOTOR_RIGHT_LPWM := 0\<rparr>"

subsection \<open>Libm and angle helpers\<close>

text \<open>\<^verbatim>\<open>atan2f(y, x)\<close>, the angle of the point \<open>(x, y)\<close> in \<open>[-\<pi>, \<pi>]\<close>.\<close>

definition atan2f :: "real \<Rightarrow> real \<Rightarrow> real" where
  "atan2f y x =
     (if 0 < x then arctan (y / x)
      else if x < 0 \<and> 0 \<le> y then arctan (y / x) + pi
      else if x < 0 \<and> y < 0 then arctan (y / x) - pi
      else if 0 < y then pi / 2
      else if y < 0 then - (pi / 2)
      else 0)"

text \<open>
  \<^verbatim>\<open>normalizeAngle\<close> in degrees:
  \<^verbatim>\<open>while (a > 180.0f) a -= 360.0f;  while (a < -180.0f) a += 360.0f;\<close>
  \<^verbatim>\<open>startAutoTurn\<close> runs the same two loops on \<^verbatim>\<open>targetAngle\<close>.
\<close>

function sub_loop_deg :: "real \<Rightarrow> real" where
  "sub_loop_deg a = (if a > 180 then sub_loop_deg (a - 360) else a)"
  by pat_completeness auto
termination
proof (relation "measure (\<lambda>a. nat \<lceil>a / 360\<rceil>)")
  show "wf (measure (\<lambda>a. nat \<lceil>a / 360\<rceil>))" by simp
next
  fix a :: real assume a: "180 < a"
  have "(a - 360) / 360 = a / 360 - 1" by simp
  then have c: "\<lceil>(a - 360) / 360\<rceil> = \<lceil>a / 360\<rceil> - 1"
    by (simp only: ceiling_diff_one)
  have "0 < a / 360" using a by simp
  then have "0 < \<lceil>a / 360\<rceil>" by (simp only: less_ceiling_iff of_int_0)
  with c have "nat \<lceil>(a - 360) / 360\<rceil> < nat \<lceil>a / 360\<rceil>" by linarith
  then show "(a - 360, a) \<in> measure (\<lambda>a. nat \<lceil>a / 360\<rceil>)"
    by (simp only: in_measure)
qed

function add_loop_deg :: "real \<Rightarrow> real" where
  "add_loop_deg a = (if a < - 180 then add_loop_deg (a + 360) else a)"
  by pat_completeness auto
termination
proof (relation "measure (\<lambda>a. nat \<lceil>(- a) / 360\<rceil>)")
  show "wf (measure (\<lambda>a. nat \<lceil>(- a) / 360\<rceil>))" by simp
next
  fix a :: real assume a: "a < - 180"
  have "(- (a + 360)) / 360 = (- a) / 360 - 1" by simp
  then have c: "\<lceil>(- (a + 360)) / 360\<rceil> = \<lceil>(- a) / 360\<rceil> - 1"
    by (simp only: ceiling_diff_one)
  have "0 < (- a) / 360" using a by simp
  then have "0 < \<lceil>(- a) / 360\<rceil>" by (simp only: less_ceiling_iff of_int_0)
  with c have "nat \<lceil>(- (a + 360)) / 360\<rceil> < nat \<lceil>(- a) / 360\<rceil>" by linarith
  then show "(a + 360, a) \<in> measure (\<lambda>a. nat \<lceil>(- a) / 360\<rceil>)"
    by (simp only: in_measure)
qed

declare sub_loop_deg.simps [simp del]
declare add_loop_deg.simps [simp del]

definition normalizeAngle :: "real \<Rightarrow> real" where
  "normalizeAngle a = add_loop_deg (sub_loop_deg a)"

subsection \<open>Configuration and global state\<close>

text \<open>
  The route table.  In the source it is the constant \<^verbatim>\<open>routesPoints\<close> with
  \<^verbatim>\<open>ROUTE_COUNT = 4\<close> and \<^verbatim>\<open>routesCounts[i]\<close> the length of route \<open>i\<close>; the functions
  below take the table as an argument, so that routes of any length can be discussed.
\<close>

type_synonym Point = "real \<times> real"
type_synonym route_table = "Point list list"

definition route0 :: "Point list" where "route0 = [(0, 0), (30, 0), (30, 30)]"
definition route1 :: "Point list" where "route1 = [(- 10, 5), (0, 10), (10, 5), (0, 0)]"
definition route2 :: "Point list" where "route2 = [(- 10, 5), (0, 10), (10, 5), (0, 0)]"
definition route3 :: "Point list" where "route3 = [(0, 0), (5, 0), (10, 5)]"

definition routesPoints :: route_table where
  "routesPoints = [route0, route1, route2, route3]"

definition ROUTE_COUNT :: "route_table \<Rightarrow> int" where
  "ROUTE_COUNT rt = int (length rt)"

definition routesCounts :: "route_table \<Rightarrow> int \<Rightarrow> int" where
  "routesCounts rt idx = int (length (rt ! nat idx))"

definition OBSTACLE_THRESHOLD_CM :: real where "OBSTACLE_THRESHOLD_CM = 30"
definition AVOID_STEP_CM :: real where "AVOID_STEP_CM = 30"
definition AVOID_CLEAR_MARGIN_CM :: real where "AVOID_CLEAR_MARGIN_CM = 8"
definition AVOID_MAX_STEP_CM :: real where "AVOID_MAX_STEP_CM = 200"
definition OBSTACLE_DETECTION_DELAY_MS :: "32 word" where "OBSTACLE_DETECTION_DELAY_MS = 2000"
definition MAX_TURN_TIME :: "32 word" where "MAX_TURN_TIME = 4000"

text \<open>The analog pins \<^verbatim>\<open>A0 .. A5\<close> with their numbers on the UNO boards.\<close>

definition IR_LEFT_SIDE_PIN :: int where "IR_LEFT_SIDE_PIN = 19"
definition IR_FRONT_LEFT_PIN :: int where "IR_FRONT_LEFT_PIN = 18"
definition IR_BACK_CENTER_PIN :: int where "IR_BACK_CENTER_PIN = 16"
definition IR_FRONT_RIGHT_PIN :: int where "IR_FRONT_RIGHT_PIN = 15"
definition IR_RIGHT_SIDE_PIN :: int where "IR_RIGHT_SIDE_PIN = 14"

datatype RouteState = ROUTE_IDLE | ROUTE_WAITING | ROUTE_TURNING | ROUTE_MOVING | ROUTE_DONE

record RouteExecution =
  active :: bool
  routeIndex :: int
  direction :: int
  requestMillis :: "32 word"
  delayMs :: "32 word"
  currentPoint :: int
  state :: RouteState
  awaitingConfirm :: bool
  waitingForReturnConfirm :: bool
  returnModeActive :: bool
  postFinishTurn :: bool
  obstacleActive :: bool
  obstacleSide :: int
  obstacleState :: int
  obstacleMoveStartLeft :: int
  obstacleMoveStartRight :: int
  obstacleMoveTargetPulses :: int
  obstacleMoveMaxPulses :: int
  obstacleProbePin :: int
  obstacleWaitActive :: bool
  obstacleWaitStartMillis :: "32 word"
  moveStartLeft :: int
  moveStartRight :: int
  moveTargetPulses :: int
  targetX :: real
  targetY :: real

text \<open>
  \<^verbatim>\<open>struct WallFollow\<close>; its members \<^verbatim>\<open>active\<close>, \<^verbatim>\<open>side\<close> and \<^verbatim>\<open>state\<close> carry the prefix
  \<open>wf_\<close>.
\<close>

record WallFollow =
  wf_active :: bool
  wf_side :: int
  wf_state :: int
  allWallsDetectedStart :: "32 word"
  routeResumePending :: bool
  resumeAction :: int

text \<open>
  The global variables of the sketch that the navigation code touches.  Of the serial output
  only the two lines by which \<^verbatim>\<open>handleAutoTurn\<close> reports the end of a turn, \<^verbatim>\<open>OK\<close> and
  \<^verbatim>\<open>Timeout\<close>, are kept (newest first): they are the only trace of how a turn ended.
\<close>

record sketch =
  motors :: pwm_pins
  encoders :: Encoder
  odometry :: Odometry
  routeExec :: RouteExecution
  wallFollow :: WallFollow
  turningInProgress :: bool
  targetAngle :: real
  turnStartTime :: "32 word"
  turnStartLeft0 :: int
  turnStartRight0 :: int
  turnTargetPulses :: int
  serialLog :: "string list"

text \<open>
  What one pass of \<^verbatim>\<open>loop()\<close> reads from outside: the value of \<^verbatim>\<open>millis()\<close>, and the
  distance that \<^verbatim>\<open>distanciaSamples(pin, 3, NULL)\<close> returns for a pin, once for the first
  sampling in the pass and once for the re-sampling that confirms an obstacle.
\<close>

record env =
  millis :: "32 word"
  distanciaSamples :: "int \<Rightarrow> real"
  distanciaResample :: "int \<Rightarrow> real"

definition RouteExecution0 :: RouteExecution where
  "RouteExecution0 = \<lparr>active = False, routeIndex = 0, direction = 1, requestMillis = 0,
     delayMs = 0, currentPoint = 0, state = ROUTE_IDLE, awaitingConfirm = False,
     waitingForReturnConfirm = False, returnModeActive = False, postFinishTurn = False,
     obstacleActive = False, obstacleSide = 0, obstacleState = 0, obstacleMoveStartLeft = 0,
     obstacleMoveStartRight = 0, obstacleMoveTargetPulses = 0, obstacleMoveMaxPulses = 0,
     obstacleProbePin = - 1, obstacleWaitActive = False, obstacleWaitStartMillis = 0,
     moveStartLeft = 0, moveStartRight = 0, moveTargetPulses = 0, targetX = 0, targetY = 0\<rparr>"

definition WallFollow0 :: WallFollow where
  "WallFollow0 = \<lparr>wf_active = False, wf_side = 0, wf_state = 0, allWallsDetectedStart = 0,
     routeResumePending = False, resumeAction = 0\<rparr>"

text \<open>The state after \<^verbatim>\<open>setup()\<close>.\<close>

definition sketch0 :: sketch where
  "sketch0 = \<lparr>motors = pins0, encoders = Encoder_init, odometry = od_origin,
     routeExec = RouteExecution0, wallFollow = WallFollow0, turningInProgress = False,
     targetAngle = 0, turnStartTime = 0, turnStartLeft0 = 0, turnStartRight0 = 0,
     turnTargetPulses = 0, serialLog = []\<rparr>"

subsection \<open>Starting and stopping the two behaviours\<close>

definition stopRouteExecution :: "sketch \<Rightarrow> sketch" where
  "stopRouteExecution s =
     (if \<not> active (routeExec s) then s
      else s\<lparr>routeExec := (routeExec s)\<lparr>active := False, state := ROUTE_IDLE\<rparr>,
             motors := stop (motors s)\<rparr>)"

definition stopWallFollowing :: "sketch \<Rightarrow> sketch" where
  "stopWallFollowing s =
     (if \<not> wf_active (wallFollow s) then s
      else s\<lparr>wallFollow := (wallFollow s)\<lparr>wf_active := False, wf_state := 0\<rparr>,
             motors := stop (motors s)\<rparr>)"

definition startWallFollowing :: "int \<Rightarrow> sketch \<Rightarrow> sketch" where
  "startWallFollowing side s =
     (let s1 = (if wf_active (wallFollow s) then stopWallFollowing s else s);
          s2 = (if active (routeExec s1) then stopRouteExecution s1 else s1)
      in s2\<lparr>wallFollow := (wallFollow s2)\<lparr>wf_active := True, wf_side := side, wf_state := 1,
               allWallsDetectedStart := 0, routeResumePending := False, resumeAction := 0\<rparr>\<rparr>)"

subsection \<open>Automatic turns\<close>

definition startAutoTurn :: "env \<Rightarrow> real \<Rightarrow> sketch \<Rightarrow> sketch" where
  "startAutoTurn e angleDelta s =
     (let pulsesF = (\<bar>angleDelta\<bar> * real_of_int (getPulsesPerRevolution (encoders s))
                      * WHEEL_BASE_CM) / (360 * WHEEL_DIAMETER_CM)
      in s\<lparr>turningInProgress := True,
            targetAngle := normalizeAngle (getThetaDegrees (odometry s) + angleDelta),
            turnTargetPulses := c_trunc (pulsesF + 0.5),
            turnStartLeft0 := readLeft (encoders s),
            turnStartRight0 := readRight (encoders s),
            turnStartTime := millis e,
            motors := (if angleDelta > 0
                       then setBothMotors_main TURN_SPEED (- TURN_SPEED) (motors s)
                       else setBothMotors_main (- TURN_SPEED) TURN_SPEED (motors s))\<rparr>)"

definition handleAutoTurn :: "env \<Rightarrow> sketch \<Rightarrow> sketch" where
  "handleAutoTurn e s =
     (if \<not> turningInProgress s then s
      else
        (let dl = readLeft (encoders s) - turnStartLeft0 s;
             dr = readRight (encoders s) - turnStartRight0 s;
             adl = \<bar>dl\<bar>;
             adr = \<bar>dr\<bar>;
             maxMoved = (if adl > adr then adl else adr)
         in if maxMoved \<ge> turnTargetPulses s then
              (let s1 = s\<lparr>motors := stop (motors s), turningInProgress := False,
                          serialLog := ''OK'' # serialLog s\<rparr>
               in if postFinishTurn (routeExec s1) then
                    (let s2 = s1\<lparr>routeExec := (routeExec s1)\<lparr>postFinishTurn := False\<rparr>\<rparr>
                     in if \<not> returnModeActive (routeExec s2) then
                          s2\<lparr>routeExec := (routeExec s2)\<lparr>awaitingConfirm := True,
                                 waitingForReturnConfirm := True, state := ROUTE_WAITING\<rparr>\<rparr>
                        else
                          s2\<lparr>routeExec := (routeExec s2)\<lparr>active := False, state := ROUTE_DONE\<rparr>\<rparr>)
                  else s1)
            else if obstacleActive (routeExec s) then
              (if obstacleState (routeExec s) = 1 then
                 (let pulsesF = (AVOID_STEP_CM / WHEEL_CIRCUMFERENCE_CM)
                                  * real_of_int (getPulsesPerRevolution (encoders s))
                  in s\<lparr>routeExec := (routeExec s)\<lparr>obstacleState := 2,
                           obstacleMoveTargetPulses := c_trunc (pulsesF + 0.5),
                           obstacleMoveStartLeft := readLeft (encoders s),
                           obstacleMoveStartRight := readRight (encoders s)\<rparr>,
                        motors := moveForward DEFAULT_SPEED (motors s)\<rparr>)
               else if obstacleState (routeExec s) = 3 then
                 (let pulsesF = (AVOID_STEP_CM / WHEEL_CIRCUMFERENCE_CM)
                                  * real_of_int (getPulsesPerRevolution (encoders s))
                  in s\<lparr>routeExec := (routeExec s)\<lparr>obstacleState := 4,
                           obstacleMoveTargetPulses := c_trunc (pulsesF + 0.5),
                           obstacleMoveStartLeft := readLeft (encoders s),
                           obstacleMoveStartRight := readRight (encoders s)\<rparr>,
                        motors := moveForward DEFAULT_SPEED (motors s)\<rparr>)
               else s)
            else if millis e - turnStartTime s > MAX_TURN_TIME then
              s\<lparr>motors := stop (motors s), turningInProgress := False,
                serialLog := ''Timeout'' # serialLog s\<rparr>
            else s))"

subsection \<open>Route execution\<close>

text \<open>
  The source repeats the following block wherever a straight leg towards the target starts:
  \<^verbatim>\<open>dist = sqrtf(dx*dx + dy*dy); pulsesF = (dist / WHEEL_CIRCUMFERENCE_CM) * ppr;
  moveTargetPulses = (long)(pulsesF + 0.5f); moveStartLeft = readLeft(); moveStartRight = readRight();\<close>
\<close>

definition computeMove :: "sketch \<Rightarrow> sketch" where
  "computeMove s =
     (let dx = targetX (routeExec s) - getX (odometry s);
          dy = targetY (routeExec s) - getY (odometry s);
          dist = sqrt (dx * dx + dy * dy);
          pulsesF = (dist / WHEEL_CIRCUMFERENCE_CM)
                      * real_of_int (getPulsesPerRevolution (encoders s))
      in s\<lparr>routeExec := (routeExec s)\<lparr>moveTargetPulses := c_trunc (pulsesF + 0.5),
               moveStartLeft := readLeft (encoders s),
               moveStartRight := readRight (encoders s)\<rparr>\<rparr>)"

text \<open>
  \<^verbatim>\<open>postFinishTurn = true; startAutoTurn(180); state = ROUTE_TURNING;\<close> at the end of a leg.
\<close>

definition finishTurn :: "env \<Rightarrow> sketch \<Rightarrow> sketch" where
  "finishTurn e s =
     (let s1 = s\<lparr>routeExec := (routeExec s)\<lparr>postFinishTurn := True\<rparr>\<rparr>;
          s2 = startAutoTurn e 180 s1
      in s2\<lparr>routeExec := (routeExec s2)\<lparr>state := ROUTE_TURNING\<rparr>\<rparr>)"

definition beginNextWaypoint :: "route_table \<Rightarrow> env \<Rightarrow> sketch \<Rightarrow> sketch" where
  "beginNextWaypoint rt e s =
     (let idx = routeIndex (routeExec s) in
      if idx < 0 \<or> idx \<ge> ROUTE_COUNT rt then stopRouteExecution s
      else
        (let count = routesCounts rt idx in
         if count \<le> 1 then
           (if \<not> returnModeActive (routeExec s) then finishTurn e s
            else s\<lparr>routeExec := (routeExec s)\<lparr>active := False, state := ROUTE_DONE\<rparr>\<rparr>)
         else
           (let effectiveCount = count - 1 in
            if currentPoint (routeExec s) \<ge> effectiveCount then
              (if \<not> returnModeActive (routeExec s) then finishTurn e s else finishTurn e s)
            else
              (let pIndex = (if direction (routeExec s) = 1
                             then currentPoint (routeExec s) + 1
                             else count - 2 - currentPoint (routeExec s)) in
               if pIndex < 0 \<or> pIndex \<ge> count then stopRouteExecution s
               else
                 (let s1 = s\<lparr>routeExec := (routeExec s)
                              \<lparr>targetX := fst (rt ! nat idx ! nat pIndex),
                               targetY := snd (rt ! nat idx ! nat pIndex)\<rparr>\<rparr>;
                      curX = getX (odometry s1);
                      curY = getY (odometry s1);
                      curTh = getThetaDegrees (odometry s1);
                      dx = targetX (routeExec s1) - curX;
                      dy = targetY (routeExec s1) - curY;
                      desired = atan2f dy dx * 180 / pi;
                      delta = normalizeAngle (desired - curTh);
                      s2 = startAutoTurn e delta s1
                  in s2\<lparr>routeExec := (routeExec s2)\<lparr>state := ROUTE_TURNING\<rparr>\<rparr>)))))"

definition startRouteExecution ::
    "route_table \<Rightarrow> env \<Rightarrow> int \<Rightarrow> bool \<Rightarrow> 32 word \<Rightarrow> sketch \<Rightarrow> bool \<times> sketch" where
  "startRouteExecution rt e routeIndex' retorno delayMilliseconds s =
     (if active (routeExec s) then (False, s)
      else if routeIndex' < 0 \<or> routeIndex' \<ge> ROUTE_COUNT rt then (False, s)
      else
        (let s1 = s\<lparr>routeExec := (routeExec s)
                     \<lparr>active := True,
                      routeIndex := routeIndex',
                      direction := (if retorno then - 1 else 1),
                      requestMillis := millis e,
                      delayMs := delayMilliseconds,
                      currentPoint := 0,
                      state := (if delayMilliseconds > 0 then ROUTE_WAITING else ROUTE_IDLE),
                      awaitingConfirm := True\<rparr>\<rparr>
         in (True, if delayMilliseconds = 0 then beginNextWaypoint rt e s1 else s1)))"

text \<open>
  The \<^verbatim>\<open>/confirm_route\<close> branch of \<^verbatim>\<open>handleClient\<close>.  The result is the HTTP status code
  and body sent to the client, and the new state.
\<close>

definition confirm_route :: "route_table \<Rightarrow> env \<Rightarrow> sketch \<Rightarrow> (int \<times> string) \<times> sketch" where
  "confirm_route rt e s =
     (if active (routeExec s) \<and> state (routeExec s) = ROUTE_WAITING
         \<and> awaitingConfirm (routeExec s) then
        (if waitingForReturnConfirm (routeExec s) then
           (let s1 = s\<lparr>routeExec := (routeExec s)
                        \<lparr>awaitingConfirm := False,
                         waitingForReturnConfirm := False,
                         returnModeActive := True,
                         direction := - 1,
                         currentPoint := 0\<rparr>\<rparr>
            in ((200, ''CONFIRMED_RETURN''), beginNextWaypoint rt e s1))
         else
           (let s1 = s\<lparr>routeExec := (routeExec s)\<lparr>awaitingConfirm := False\<rparr>\<rparr>
            in ((200, ''CONFIRMED''), beginNextWaypoint rt e s1)))
      else ((409, ''NO_SCHEDULE''), s))"

text \<open>
  The \<^verbatim>\<open>/start_route\<close> branch, after the three query parameters have been parsed.
\<close>

definition start_route ::
    "route_table \<Rightarrow> env \<Rightarrow> int \<Rightarrow> bool \<Rightarrow> 32 word \<Rightarrow> sketch \<Rightarrow> (int \<times> string) \<times> sketch" where
  "start_route rt e rIdx retorno delayMs' s =
     (let (ok, s1) = startRouteExecution rt e rIdx retorno delayMs' s
      in if ok then ((200, ''OK''), s1) else ((409, ''BUSY''), s1))"

text \<open>
  The block \<^verbatim>\<open>if (routeExec.active) { ... }\<close> of \<^verbatim>\<open>loop()\<close>, which runs after
  \<^verbatim>\<open>handleAutoTurn()\<close>.
\<close>

definition routeStateMachine :: "route_table \<Rightarrow> env \<Rightarrow> sketch \<Rightarrow> sketch" where
  "routeStateMachine rt e s =
     (if \<not> active (routeExec s) then s
      else if state (routeExec s) = ROUTE_WAITING then
        (if millis e - requestMillis (routeExec s) \<ge> delayMs (routeExec s)
         then beginNextWaypoint rt e s else s)
      else if state (routeExec s) = ROUTE_TURNING then
        (if \<not> turningInProgress s then
           (let s1 = computeMove s in
            if moveTargetPulses (routeExec s1) \<le> 0 then
              beginNextWaypoint rt e
                (s1\<lparr>routeExec := (routeExec s1)\<lparr>currentPoint := currentPoint (routeExec s1) + 1\<rparr>\<rparr>)
            else
              s1\<lparr>motors := moveForward DEFAULT_SPEED (motors s1),
                 routeExec := (routeExec s1)\<lparr>state := ROUTE_MOVING\<rparr>\<rparr>)
         else s)
      else if state (routeExec s) = ROUTE_MOVING then
        (let dFL = distanciaSamples e IR_FRONT_LEFT_PIN;
             dFR = distanciaSamples e IR_FRONT_RIGHT_PIN;
             frontMin = min dFL dFR
         in if \<not> obstacleActive (routeExec s) \<and> \<not> obstacleWaitActive (routeExec s)
               \<and> frontMin \<le> OBSTACLE_THRESHOLD_CM then
              s\<lparr>routeExec := (routeExec s)\<lparr>obstacleWaitActive := True,
                    obstacleWaitStartMillis := millis e\<rparr>\<rparr>
            else if \<not> obstacleActive (routeExec s) \<and> obstacleWaitActive (routeExec s) then
              (if millis e - obstacleWaitStartMillis (routeExec s) \<ge> OBSTACLE_DETECTION_DELAY_MS
               then
                 (let dFL2 = distanciaResample e IR_FRONT_LEFT_PIN;
                      dFR2 = distanciaResample e IR_FRONT_RIGHT_PIN;
                      frontMin2 = min dFL2 dFR2;
                      s1 = s\<lparr>routeExec := (routeExec s)\<lparr>obstacleWaitActive := False\<rparr>\<rparr>
                  in if frontMin2 \<le> OBSTACLE_THRESHOLD_CM then
                       (let dL = distanciaSamples e IR_LEFT_SIDE_PIN;
                            dR = distanciaSamples e IR_RIGHT_SIDE_PIN;
                            side = (if dL > dR then 1 else - 1);
                            pulsesF = (AVOID_MAX_STEP_CM / WHEEL_CIRCUMFERENCE_CM)
                                        * real_of_int (getPulsesPerRevolution (encoders s1));
                            s2 = s1\<lparr>routeExec := (routeExec s1)
                                      \<lparr>obstacleSide := side,
                                       obstacleActive := True,
                                       obstacleState := 1,
                                       obstacleProbePin := (if side = 1 then IR_RIGHT_SIDE_PIN
                                                            else IR_LEFT_SIDE_PIN),
                                       obstacleMoveMaxPulses := c_trunc (pulsesF + 0.5)\<rparr>,
                                    motors := stop (motors s1)\<rparr>
                        in startAutoTurn e (real_of_int side * 90) s2)
                     else s1)
               else s)
            else if obstacleActive (routeExec s) then
              (if obstacleState (routeExec s) = 2 then
                 (let probeDist = distanciaSamples e (obstacleProbePin (routeExec s));
                      dl = \<bar>readLeft (encoders s) - obstacleMoveStartLeft (routeExec s)\<bar>;
                      dr = \<bar>readRight (encoders s) - obstacleMoveStartRight (routeExec s)\<bar>;
                      maxm = (if dl > dr then dl else dr)
                  in if probeDist \<ge> OBSTACLE_THRESHOLD_CM + AVOID_CLEAR_MARGIN_CM
                        \<or> maxm \<ge> obstacleMoveMaxPulses (routeExec s) then
                       startAutoTurn e (- real_of_int (obstacleSide (routeExec s)) * 90)
                         (s\<lparr>motors := stop (motors s),
                            routeExec := (routeExec s)\<lparr>obstacleState := 3\<rparr>\<rparr>)
                     else s)
               else if obstacleState (routeExec s) = 4 then
                 (let dl = \<bar>readLeft (encoders s) - obstacleMoveStartLeft (routeExec s)\<bar>;
                      dr = \<bar>readRight (encoders s) - obstacleMoveStartRight (routeExec s)\<bar>;
                      maxm = (if dl > dr then dl else dr)
                  in if maxm \<ge> obstacleMoveTargetPulses (routeExec s) then
                       (let s1 = s\<lparr>motors := stop (motors s),
                                   routeExec := (routeExec s)\<lparr>obstacleState := 5,
                                      obstacleActive := False\<rparr>\<rparr>;
                            s2 = computeMove s1
                        in if moveTargetPulses (routeExec s2) \<le> 0 then
                             beginNextWaypoint rt e
                               (s2\<lparr>routeExec := (routeExec s2)
                                     \<lparr>currentPoint := currentPoint (routeExec s2) + 1\<rparr>\<rparr>)
                           else
                             s2\<lparr>motors := moveForward DEFAULT_SPEED (motors s2),
                                routeExec := (routeExec s2)\<lparr>state := ROUTE_MOVING\<rparr>\<rparr>)
                     else s)
               else s)
            else
              (let dl = \<bar>readLeft (encoders s) - moveStartLeft (routeExec s)\<bar>;
                   dr = \<bar>readRight (encoders s) - moveStartRight (routeExec s)\<bar>;
                   maxm = (if dl > dr then dl else dr)
               in if maxm \<ge> moveTargetPulses (routeExec s) then
                    beginNextWaypoint rt e
                      (s\<lparr>motors := stop (motors s),
                         routeExec := (routeExec s)
                           \<lparr>currentPoint := currentPoint (routeExec s) + 1\<rparr>\<rparr>)
                  else s))
      else s)"


subsection \<open>Concrete scenarios\<close>

text \<open>An environment with nothing in sight, at time 0.\<close>

definition env0 :: env where
  "env0 = \<lparr>millis = 0, distanciaSamples = (\<lambda>pin. 100), distanciaResample = (\<lambda>pin. 100)\<rparr>"

text \<open>
  The robot on the first leg of route 0, driving towards \<open>(30, 0)\<close>; an obstacle was first
  seen at time \<open>1000\<close>.
\<close>

definition moving_wait :: sketch where
  "moving_wait = sketch0
     \<lparr>motors := moveForward DEFAULT_SPEED pins0,
      routeExec := RouteExecution0
        \<lparr>active := True, state := ROUTE_MOVING, awaitingConfirm := True,
         targetX := 30, targetY := 0, moveTargetPulses := 2106,
         obstacleWaitActive := True, obstacleWaitStartMillis := 1000\<rparr>\<rparr>"

text \<open>
  Two seconds later the front sensors still report 25 cm on re-sampling; the left side has
  40 cm of clearance, the right side 20 cm.
\<close>

definition env_blocked :: env where
  "env_blocked = \<lparr>millis = 3000,
     distanciaSamples = (\<lambda>pin. if pin = IR_LEFT_SIDE_PIN then 40 else 20),
     distanciaResample = (\<lambda>pin. 25)\<rparr>"

text \<open>The state in which the avoidance has just been confirmed and the 90 degree turn started.\<close>

definition turn_started :: sketch where
  "turn_started = routeStateMachine routesPoints env_blocked moving_wait"

text \<open>The same state once the wheels have covered the pulses of the turn.\<close>

definition turn_covered :: sketch where
  "turn_covered = turn_started
     \<lparr>encoders := (encoders turn_started)\<lparr>leftPulses := 3501, rightPulses := - 3501\<rparr>\<rparr>"

text \<open>Wall-following along the left wall has been started from the idle state.\<close>

definition following_left :: sketch where
  "following_left = startWallFollowing 1 sketch0"


section \<open>Properties of the motor driver\<close>

lemma setLeftMotor_fwd:
  "0 < speed \<Longrightarrow>
     MOTOR_LEFT_RPWM (setLeftMotor speed p) = 0 \<and>
     MOTOR_LEFT_LPWM (setLeftMotor speed p) = max MIN_SPEED (min speed MAX_SPEED)"
  by (simp add: setLeftMotor_def constrain_def MAX_SPEED_def MIN_SPEED_def Let_def)

lemma setLeftMotor_bwd:
  "speed < 0 \<Longrightarrow>
     MOTOR_LEFT_LPWM (setLeftMotor speed p) = 0 \<and>
     MOTOR_LEFT_RPWM (setLeftMotor speed p) = max MIN_SPEED (min (- speed) MAX_SPEED)"
  by (simp add: setLeftMotor_def constrain_def MAX_SPEED_def MIN_SPEED_def Let_def)

lemma setLeftMotor_zero:
  "MOTOR_LEFT_RPWM (setLeftMotor 0 p) = 0 \<and> MOTOR_LEFT_LPWM (setLeftMotor 0 p) = 0"
  by (simp add: setLeftMotor_def constrain_def MAX_SPEED_def MIN_SPEED_def Let_def)

lemma setRightMotor_main_fwd:
  "0 < speed \<Longrightarrow>
     MOTOR_RIGHT_RPWM (setRightMotor_main speed p) = 0 \<and>
     MOTOR_RIGHT_LPWM (setRightMotor_main speed p) = max MIN_SPEED (min speed MAX_SPEED)"
  by (simp add: setRightMotor_main_def constrain_def MAX_SPEED_def MIN_SPEED_def Let_def)

lemma setRightMotor_main_bwd:
  "speed < 0 \<Longrightarrow>
     MOTOR_RIGHT_LPWM (setRightMotor_main speed p) = 0 \<and>
     MOTOR_RIGHT_RPWM (setRightMotor_main speed p) = max MIN_SPEED (min (- speed) MAX_SPEED)"
  by (simp add: setRightMotor_main_def constrain_def MAX_SPEED_def MIN_SPEED_def Let_def)

lemma setRightMotor_main_zero:
  "MOTOR_RIGHT_RPWM (setRightMotor_main 0 p) = 0 \<and> MOTOR_RIGHT_LPWM (setRightMotor_main 0 p) = 0"
  by (simp add: setRightMotor_main_def constrain_def MAX_SPEED_def MIN_SPEED_def Let_def)

text \<open>The compensated speed of a nonzero clamped speed is nonzero and has the same sign.\<close>

lemma c_round_pos: "1 / 2 \<le> x \<Longrightarrow> 0 < c_round x"
  unfolding c_round_def by (simp add: less_floor_iff Suc_le_eq)

lemma c_round_neg: "x \<le> - (1 / 2) \<Longrightarrow> c_round x < 0"
  unfolding c_round_def by (simp add: less_floor_iff)

lemma c_round_le: "0 \<le> x \<Longrightarrow> x \<le> real_of_int n \<Longrightarrow> c_round x \<le> n"
  unfolding c_round_def by (simp add: floor_le_iff)

lemma c_round_uminus: "c_round (- x) = - c_round x"
  by (simp add: c_round_def)

lemma setRightMotor_char:
  "setRightMotor speed p =
     (let c = constrain (c_round (real_of_int (constrain speed (- MAX_SPEED) MAX_SPEED)
                                  * RIGHT_MOTOR_COMPENSATION)) (- MAX_SPEED) MAX_SPEED
      in p\<lparr>MOTOR_RIGHT_RPWM := (if c < 0 then max MIN_SPEED (- c) else 0),
            MOTOR_RIGHT_LPWM := (if 0 < c then max MIN_SPEED c else 0)\<rparr>)"
  by (simp add: setRightMotor_def Let_def max_def)

lemma compensated_pos:
  assumes "1 \<le> s" "s \<le> 255"
  shows "0 < c_round (real_of_int s * RIGHT_MOTOR_COMPENSATION)"
    and "c_round (real_of_int s * RIGHT_MOTOR_COMPENSATION) \<le> 255"
    and "s \<le> 79 \<Longrightarrow> c_round (real_of_int s * RIGHT_MOTOR_COMPENSATION) < 80"
proof -
  have x: "1 / 2 \<le> real_of_int s * RIGHT_MOTOR_COMPENSATION"
          "0 \<le> real_of_int s * RIGHT_MOTOR_COMPENSATION"
          "real_of_int s * RIGHT_MOTOR_COMPENSATION \<le> real_of_int 255"
    using assms by (simp_all add: RIGHT_MOTOR_COMPENSATION_def)
  show "0 < c_round (real_of_int s * RIGHT_MOTOR_COMPENSATION)"
    by (rule c_round_pos [OF x(1)])
  show "c_round (real_of_int s * RIGHT_MOTOR_COMPENSATION) \<le> 255"
    by (rule c_round_le [OF x(2,3)])
  show "c_round (real_of_int s * RIGHT_MOTOR_COMPENSATION) < 80" if "s \<le> 79"
  proof -
    have "real_of_int s * RIGHT_MOTOR_COMPENSATION \<le> real_of_int 79"
      using that assms(1) by (simp add: RIGHT_MOTOR_COMPENSATION_def)
    from c_round_le [OF x(2) this] show ?thesis by simp
  qed
qed

lemma setRightMotor_fwd:
  assumes "0 < speed"
  shows "MOTOR_RIGHT_RPWM (setRightMotor speed p) = 0 \<and>
         MIN_SPEED \<le> MOTOR_RIGHT_LPWM (setRightMotor speed p) \<and>
         MOTOR_RIGHT_LPWM (setRightMotor speed p) \<le> MAX_SPEED \<and>
         (speed < MIN_SPEED \<longrightarrow> MOTOR_RIGHT_LPWM (setRightMotor speed p) = MIN_SPEED)"
proof -
  define s where "s = constrain speed (- MAX_SPEED) MAX_SPEED"
  define c where "c = c_round (real_of_int s * RIGHT_MOTOR_COMPENSATION)"
  have s: "1 \<le> s" "s \<le> 255" "speed < 80 \<Longrightarrow> s \<le> 79"
    using assms by (auto simp: s_def constrain_def MAX_SPEED_def)
  have c: "0 < c" "c \<le> 255" "speed < 80 \<Longrightarrow> c < 80"
    using compensated_pos [OF s(1,2)] s(3) by (auto simp: c_def)
  have cc: "constrain c (- MAX_SPEED) MAX_SPEED = c"
    using c(1,2) by (simp add: constrain_def MAX_SPEED_def)
  have "setRightMotor speed p = p\<lparr>MOTOR_RIGHT_RPWM := 0, MOTOR_RIGHT_LPWM := max MIN_SPEED c\<rparr>"
    unfolding setRightMotor_char s_def [symmetric] c_def [symmetric] cc Let_def
    using c(1) by simp
  then show ?thesis
    using c by (auto simp add: MIN_SPEED_def MAX_SPEED_def max_def)
qed

lemma setRightMotor_bwd:
  assumes "speed < 0"
  shows "MOTOR_RIGHT_LPWM (setRightMotor speed p) = 0 \<and>
         MIN_SPEED \<le> MOTOR_RIGHT_RPWM (setRightMotor speed p) \<and>
         MOTOR_RIGHT_RPWM (setRightMotor speed p) \<le> MAX_SPEED \<and>
         (- speed < MIN_SPEED \<longrightarrow> MOTOR_RIGHT_RPWM (setRightMotor speed p) = MIN_SPEED)"
proof -
  define s where "s = constrain speed (- MAX_SPEED) MAX_SPEED"
  define c where "c = c_round (real_of_int s * RIGHT_MOTOR_COMPENSATION)"
  have s: "1 \<le> - s" "- s \<le> 255" "- speed < 80 \<Longrightarrow> - s \<le> 79"
    using assms by (auto simp: s_def constrain_def MAX_SPEED_def)
  have "c = - c_round (real_of_int (- s) * RIGHT_MOTOR_COMPENSATION)"
    using c_round_uminus [of "real_of_int s * RIGHT_MOTOR_COMPENSATION"] by (simp add: c_def)
  then have c: "c < 0" "- 255 \<le> c" "- speed < 80 \<Longrightarrow> - 80 < c"
    using compensated_pos [OF s(1,2)] s(3) by auto
  have cc: "constrain c (- MAX_SPEED) MAX_SPEED = c"
    using c(1,2) by (simp add: constrain_def MAX_SPEED_def)
  have "setRightMotor speed p = p\<lparr>MOTOR_RIGHT_RPWM := max MIN_SPEED (- c), MOTOR_RIGHT_LPWM := 0\<rparr>"
    unfolding setRightMotor_char s_def [symmetric] c_def [symmetric] cc Let_def
    using c(1) by simp
  then show ?thesis
    using c by (auto simp add: MIN_SPEED_def MAX_SPEED_def max_def)
qed

lemma setRightMotor_zero:
  "MOTOR_RIGHT_RPWM (setRightMotor 0 p) = 0 \<and> MOTOR_RIGHT_LPWM (setRightMotor 0 p) = 0"
  by (simp add: setRightMotor_def constrain_def MAX_SPEED_def c_round_def Let_def)

text \<open>
  C10.  For every nonzero commanded speed the duty written to the active channel of the
  wheel lies between \<open>MIN_SPEED = 80\<close> and \<open>MAX_SPEED = 255\<close> and the other channel is 0;
  a commanded magnitude below 80 is raised to exactly 80; both channels of the wheel are 0
  only for the commanded speed 0.  This holds for \<^verbatim>\<open>setLeftMotor\<close> and for both versions of
  \<^verbatim>\<open>setRightMotor\<close>.
\<close>

theorem motor_duty_between_min_and_max:
  "(0 < speed \<longrightarrow>
      MOTOR_LEFT_RPWM (setLeftMotor speed p) = 0 \<and>
      MIN_SPEED \<le> MOTOR_LEFT_LPWM (setLeftMotor speed p) \<and>
      MOTOR_LEFT_LPWM (setLeftMotor speed p) \<le> MAX_SPEED \<and>
      (speed < MIN_SPEED \<longrightarrow> MOTOR_LEFT_LPWM (setLeftMotor speed p) = MIN_SPEED) \<and>
      MOTOR_RIGHT_RPWM (setRightMotor speed p) = 0 \<and>
      MIN_SPEED \<le> MOTOR_RIGHT_LPWM (setRightMotor speed p) \<and>
      MOTOR_RIGHT_LPWM (setRightMotor speed p) \<le> MAX_SPEED \<and>
      (speed < MIN_SPEED \<longrightarrow> MOTOR_RIGHT_LPWM (setRightMotor speed p) = MIN_SPEED) \<and>
      MOTOR_RIGHT_RPWM (setRightMotor_main speed p) = 0 \<and>
      MIN_SPEED \<le> MOTOR_RIGHT_LPWM (setRightMotor_main speed p) \<and>
      MOTOR_RIGHT_LPWM (setRightMotor_main speed p) \<le> MAX_SPEED \<and>
      (speed < MIN_SPEED \<longrightarrow> MOTOR_RIGHT_LPWM (setRightMotor_main speed p) = MIN_SPEED)) \<and>
   (speed < 0 \<longrightarrow>
      MOTOR_LEFT_LPWM (setLeftMotor speed p) = 0 \<and>
      MIN_SPEED \<le> MOTOR_LEFT_RPWM (setLeftMotor speed p) \<and>
      MOTOR_LEFT_RPWM (setLeftMotor speed p) \<le> MAX_SPEED \<and>
      (- speed < MIN_SPEED \<longrightarrow> MOTOR_LEFT_RPWM (setLeftMotor speed p) = MIN_SPEED) \<and>
      MOTOR_RIGHT_LPWM (setRightMotor speed p) = 0 \<and>
      MIN_SPEED \<le> MOTOR_RIGHT_RPWM (setRightMotor speed p) \<and>
      MOTOR_RIGHT_RPWM (setRightMotor speed p) \<le> MAX_SPEED \<and>
      (- speed < MIN_SPEED \<longrightarrow> MOTOR_RIGHT_RPWM (setRightMotor speed p) = MIN_SPEED) \<and>
      MOTOR_RIGHT_LPWM (setRightMotor_main speed p) = 0 \<and>
      MIN_SPEED \<le> MOTOR_RIGHT_RPWM (setRightMotor_main speed p) \<and>
      MOTOR_RIGHT_RPWM (setRightMotor_main speed p) \<le> MAX_SPEED \<and>
      (- speed < MIN_SPEED \<longrightarrow> MOTOR_RIGHT_RPWM (setRightMotor_main speed p) = MIN_SPEED)) \<and>
   ((MOTOR_LEFT_RPWM (setLeftMotor speed p) = 0 \<and> MOTOR_LEFT_LPWM (setLeftMotor speed p) = 0)
      = (speed = 0)) \<and>
   ((MOTOR_RIGHT_RPWM (setRightMotor speed p) = 0 \<and> MOTOR_RIGHT_LPWM (setRightMotor speed p) = 0)
      = (speed = 0)) \<and>
   ((MOTOR_RIGHT_RPWM (setRightMotor_main speed p) = 0 \<and>
     MOTOR_RIGHT_LPWM (setRightMotor_main speed p) = 0) = (speed = 0))"
proof -
  have fwd: "0 < speed \<Longrightarrow> ?thesis"
    using setLeftMotor_fwd [of speed p] setRightMotor_fwd [of speed p]
      setRightMotor_main_fwd [of speed p]
    by (simp add: MIN_SPEED_def MAX_SPEED_def)
  have bwd: "speed < 0 \<Longrightarrow> ?thesis"
    using setLeftMotor_bwd [of speed p] setRightMotor_bwd [of speed p]
      setRightMotor_main_bwd [of speed p]
    by (simp add: MIN_SPEED_def MAX_SPEED_def)
  have zero: "speed = 0 \<Longrightarrow> ?thesis"
    using setLeftMotor_zero [of p] setRightMotor_zero [of p] setRightMotor_main_zero [of p]
    by simp
  from fwd bwd zero show ?thesis
    by (cases "0 < speed"; cases "speed < 0") (simp_all add: not_less)
qed

theorem motor_duty_between_min_and_max_witness:
  "MOTOR_LEFT_LPWM (setLeftMotor 40 pins0) = 80 \<and>
   MOTOR_RIGHT_LPWM (setRightMotor 40 pins0) = 80 \<and>
   MOTOR_RIGHT_RPWM (setRightMotor_main (- 300) pins0) \<le> 255 \<and>
   MOTOR_LEFT_RPWM (setLeftMotor (- 1) pins0) = 80"
  using motor_duty_between_min_and_max [of 40 pins0]
    motor_duty_between_min_and_max [of "- 300" pins0]
    motor_duty_between_min_and_max [of "- 1" pins0]
  by (simp add: MIN_SPEED_def MAX_SPEED_def)

subsection \<open>The velocity loop\<close>

lemma left_pins_setBoth:
  "MOTOR_LEFT_RPWM (setBothMotors a b p) = MOTOR_LEFT_RPWM (setLeftMotor a p) \<and>
   MOTOR_LEFT_LPWM (setBothMotors a b p) = MOTOR_LEFT_LPWM (setLeftMotor a p)"
  by (simp add: setBothMotors_def setRightMotor_char Let_def)

lemma right_pins_setBoth:
  "MOTOR_RIGHT_RPWM (setBothMotors a b p) = MOTOR_RIGHT_RPWM (setRightMotor b p) \<and>
   MOTOR_RIGHT_LPWM (setBothMotors a b p) = MOTOR_RIGHT_LPWM (setRightMotor b p)"
  by (simp add: setBothMotors_def setRightMotor_char Let_def)

lemma right_pins_setRight:
  "MOTOR_RIGHT_RPWM (setRightMotor b p) = MOTOR_RIGHT_RPWM (setRightMotor b q) \<and>
   MOTOR_RIGHT_LPWM (setRightMotor b p) = MOTOR_RIGHT_LPWM (setRightMotor b q)"
  by (simp add: setRightMotor_char Let_def)

lemma updateVelocityControl_errors:
  assumes "velocityControlEnabled m" "dtMs \<noteq> 0" "\<not> now - lastPIDMillis m < pidIntervalMs m"
  shows "prevErrorL (updateVelocityControl l r dtMs now m)
           = appliedPpsLeft (updateVelocityControl l r dtMs now m)
             - real_of_int l / (real (unat (now - lastPIDMillis m)) / 1000)"
    and "prevErrorR (updateVelocityControl l r dtMs now m)
           = appliedPpsRight (updateVelocityControl l r dtMs now m)
             - real_of_int r / (real (unat (now - lastPIDMillis m)) / 1000)"
  using assms by (simp_all add: updateVelocityControl_def Let_def)

lemma updateVelocityControl_left_indep:
  "appliedPpsLeft (updateVelocityControl l r dtMs now m)
     = appliedPpsLeft (updateVelocityControl l r' dtMs now m) \<and>
   integralL (updateVelocityControl l r dtMs now m)
     = integralL (updateVelocityControl l r' dtMs now m) \<and>
   prevErrorL (updateVelocityControl l r dtMs now m)
     = prevErrorL (updateVelocityControl l r' dtMs now m) \<and>
   MOTOR_LEFT_RPWM (pins (updateVelocityControl l r dtMs now m))
     = MOTOR_LEFT_RPWM (pins (updateVelocityControl l r' dtMs now m)) \<and>
   MOTOR_LEFT_LPWM (pins (updateVelocityControl l r dtMs now m))
     = MOTOR_LEFT_LPWM (pins (updateVelocityControl l r' dtMs now m))"
  by (simp add: updateVelocityControl_def Let_def left_pins_setBoth)

lemma updateVelocityControl_right_indep:
  "appliedPpsRight (updateVelocityControl l r dtMs now m)
     = appliedPpsRight (updateVelocityControl l' r dtMs now m) \<and>
   integralR (updateVelocityControl l r dtMs now m)
     = integralR (updateVelocityControl l' r dtMs now m) \<and>
   prevErrorR (updateVelocityControl l r dtMs now m)
     = prevErrorR (updateVelocityControl l' r dtMs now m) \<and>
   MOTOR_RIGHT_RPWM (pins (updateVelocityControl l r dtMs now m))
     = MOTOR_RIGHT_RPWM (pins (updateVelocityControl l' r dtMs now m)) \<and>
   MOTOR_RIGHT_LPWM (pins (updateVelocityControl l r dtMs now m))
     = MOTOR_RIGHT_LPWM (pins (updateVelocityControl l' r dtMs now m))"
  using right_pins_setRight
  by (simp add: updateVelocityControl_def Let_def right_pins_setBoth)

text \<open>
  C8 (amended; the version of the driver with per-motor members).  On every update that passes the rate limiter the error
  fed to the regulator of a wheel is its applied setpoint minus its own
  \<open>deltaPulses / elapsedSeconds\<close>, and the setpoint, the integrator, the stored error and the
  PWM outputs of a wheel do not depend on the pulse count of the other wheel.
\<close>

theorem velocity_control_per_wheel:
  assumes "velocityControlEnabled m" and "dtMs \<noteq> 0"
    and "\<not> now - lastPIDMillis m < pidIntervalMs m"
  shows "prevErrorL (updateVelocityControl l r dtMs now m)
           = appliedPpsLeft (updateVelocityControl l r dtMs now m)
             - real_of_int l / (real (unat (now - lastPIDMillis m)) / 1000) \<and>
         prevErrorR (updateVelocityControl l r dtMs now m)
           = appliedPpsRight (updateVelocityControl l r dtMs now m)
             - real_of_int r / (real (unat (now - lastPIDMillis m)) / 1000) \<and>
         appliedPpsLeft (updateVelocityControl l r dtMs now m)
           = appliedPpsLeft (updateVelocityControl l r' dtMs now m) \<and>
         integralL (updateVelocityControl l r dtMs now m)
           = integralL (updateVelocityControl l r' dtMs now m) \<and>
         prevErrorL (updateVelocityControl l r dtMs now m)
           = prevErrorL (updateVelocityControl l r' dtMs now m) \<and>
         MOTOR_LEFT_RPWM (pins (updateVelocityControl l r dtMs now m))
           = MOTOR_LEFT_RPWM (pins (updateVelocityControl l r' dtMs now m)) \<and>
         MOTOR_LEFT_LPWM (pins (updateVelocityControl l r dtMs now m))
           = MOTOR_LEFT_LPWM (pins (updateVelocityControl l r' dtMs now m)) \<and>
         appliedPpsRight (updateVelocityControl l r dtMs now m)
           = appliedPpsRight (updateVelocityControl l' r dtMs now m) \<and>
         integralR (updateVelocityControl l r dtMs now m)
           = integralR (updateVelocityControl l' r dtMs now m) \<and>
         prevErrorR (updateVelocityControl l r dtMs now m)
           = prevErrorR (updateVelocityControl l' r dtMs now m) \<and>
         MOTOR_RIGHT_RPWM (pins (updateVelocityControl l r dtMs now m))
           = MOTOR_RIGHT_RPWM (pins (updateVelocityControl l' r dtMs now m)) \<and>
         MOTOR_RIGHT_LPWM (pins (updateVelocityControl l r dtMs now m))
           = MOTOR_RIGHT_LPWM (pins (updateVelocityControl l' r dtMs now m))"
  using updateVelocityControl_errors [OF assms, of l r]
    updateVelocityControl_left_indep [of l r dtMs now m r']
    updateVelocityControl_right_indep [of l r dtMs now m l']
  by simp

theorem velocity_control_per_wheel_witness:
  "velocityControlEnabled pid0 \<and> (50 :: 32 word) \<noteq> 0 \<and>
   \<not> 50 - lastPIDMillis pid0 < pidIntervalMs pid0 \<and>
   prevErrorL (updateVelocityControl 0 100 50 50 pid0)
     = appliedPpsLeft (updateVelocityControl 0 100 50 50 pid0) \<and>
   prevErrorR (updateVelocityControl 0 100 50 50 pid0)
     = appliedPpsRight (updateVelocityControl 0 100 50 50 pid0) - 2000"
proof -
  have h: "velocityControlEnabled pid0" "(50 :: 32 word) \<noteq> 0"
    "\<not> 50 - lastPIDMillis pid0 < pidIntervalMs pid0"
    by (simp_all add: pid0_def)
  show ?thesis
    using h velocity_control_per_wheel [OF h, of 0 100 0 0] by (simp add: pid0_def)
qed

lemma main_pins_rest:
  "m_pins (updateVelocityControl_main 0 0 50 50 pid_main0)
     = setBothMotors_main (constrain (c_round (121 / 16)) (- MAX_SPEED) MAX_SPEED)
         (constrain (c_round (real_of_int (constrain (c_round (121 / 16)) (- MAX_SPEED) MAX_SPEED)
            * RIGHT_MOTOR_COMPENSATION_main)) (- MAX_SPEED) MAX_SPEED) pins0"
  by (simp add: updateVelocityControl_main_def pid_main0_def Let_def ramp_step_def
      clamp_integral_def)

lemma main_pins_moving:
  "m_pins (updateVelocityControl_main 0 100 50 50 pid_main0)
     = setBothMotors_main (constrain (c_round (- (1815 / 16))) (- MAX_SPEED) MAX_SPEED)
         (constrain (c_round (real_of_int (constrain (c_round (- (1815 / 16))) (- MAX_SPEED) MAX_SPEED)
            * RIGHT_MOTOR_COMPENSATION_main)) (- MAX_SPEED) MAX_SPEED) pins0"
  by (simp add: updateVelocityControl_main_def pid_main0_def Let_def ramp_step_def
      clamp_integral_def)

lemma c_round_values: "c_round (121 / 16) = 8" "c_round (- (1815 / 16)) = - 113"
  by (simp_all add: c_round_def)

lemma left_of_both_main:
  "MOTOR_LEFT_RPWM (setBothMotors_main a b p) = MOTOR_LEFT_RPWM (setLeftMotor a p) \<and>
   MOTOR_LEFT_LPWM (setBothMotors_main a b p) = MOTOR_LEFT_LPWM (setLeftMotor a p)"
  by (simp add: setBothMotors_main_def setRightMotor_main_def Let_def)

text \<open>
  The version under \<^verbatim>\<open>AMR-main/\<close> averages the two pulse counts.  From the same state and with
  the left wheel at rest in both runs, the left wheel is driven forward at duty 80 when the
  right wheel is at rest too, and backward at duty 113 when the right wheel reports 100 pulses.
\<close>

theorem averaged_velocity_control_counterexample:
  "MOTOR_LEFT_LPWM (m_pins (updateVelocityControl_main 0 0 50 50 pid_main0)) = 80 \<and>
   MOTOR_LEFT_RPWM (m_pins (updateVelocityControl_main 0 0 50 50 pid_main0)) = 0 \<and>
   MOTOR_LEFT_LPWM (m_pins (updateVelocityControl_main 0 100 50 50 pid_main0)) = 0 \<and>
   MOTOR_LEFT_RPWM (m_pins (updateVelocityControl_main 0 100 50 50 pid_main0)) = 113"
  unfolding main_pins_rest main_pins_moving c_round_values
  by (simp add: left_of_both_main constrain_def MAX_SPEED_def MIN_SPEED_def setLeftMotor_def)

section \<open>Properties of the encoder\<close>

lemma enc_run_left:
  "leftPulses (enc_run e evs) =
     leftPulses e + word_of_int (sum_list (left_deltas (leftInverted e) evs))"
proof (induction evs arbitrary: e)
  case Nil
  show ?case by (simp add: enc_run_def)
next
  case (Cons ev evs)
  have step: "enc_run e (ev # evs) = enc_run (enc_step e ev) evs"
    by (simp add: enc_run_def)
  show ?case
    unfolding step Cons.IH
    by (cases ev)
      (simp_all add: leftEncoderISR_def rightEncoderISR_def setLeftInverted_def
        setRightInverted_def spec_delta_def Let_def)
qed

lemma enc_run_right:
  "rightPulses (enc_run e evs) =
     rightPulses e + word_of_int (sum_list (right_deltas (rightInverted e) evs))"
proof (induction evs arbitrary: e)
  case Nil
  show ?case by (simp add: enc_run_def)
next
  case (Cons ev evs)
  have step: "enc_run e (ev # evs) = enc_run (enc_step e ev) evs"
    by (simp add: enc_run_def)
  show ?case
    unfolding step Cons.IH
    by (cases ev)
      (simp_all add: leftEncoderISR_def rightEncoderISR_def setLeftInverted_def
        setRightInverted_def spec_delta_def Let_def)
qed

lemma sint_word_of_int_32:
  "- (2 ^ 31) \<le> k \<Longrightarrow> k < 2 ^ 31 \<Longrightarrow> sint (word_of_int k :: 32 word) = k"
  by (simp add: sint_sbintrunc' signed_take_bit_int_eq_self)

text \<open>
  C9.  After any sequence of encoder events that starts from reset counters, the counter of a
  wheel is the sum of the per-edge deltas of that wheel (as a 32-bit value), a read returns
  that sum whenever it fits into a \<^verbatim>\<open>long\<close>, and the delta of an edge under a set
  inversion flag is the negated delta of the same edge under a cleared flag.
\<close>

theorem encoder_read_is_signed_sum:
  "leftPulses (enc_run (resetBoth e) evs)
     = word_of_int (sum_list (left_deltas (leftInverted e) evs)) \<and>
   rightPulses (enc_run (resetBoth e) evs)
     = word_of_int (sum_list (right_deltas (rightInverted e) evs)) \<and>
   (- (2 ^ 31) \<le> sum_list (left_deltas (leftInverted e) evs) \<and>
    sum_list (left_deltas (leftInverted e) evs) < 2 ^ 31 \<longrightarrow>
      readLeft (enc_run (resetBoth e) evs) = sum_list (left_deltas (leftInverted e) evs)) \<and>
   (- (2 ^ 31) \<le> sum_list (right_deltas (rightInverted e) evs) \<and>
    sum_list (right_deltas (rightInverted e) evs) < 2 ^ 31 \<longrightarrow>
      readRight (enc_run (resetBoth e) evs) = sum_list (right_deltas (rightInverted e) evs)) \<and>
   spec_delta True A B = - spec_delta False A B \<and>
   leftPulses (leftEncoderISR A B e) = leftPulses e + word_of_int (spec_delta (leftInverted e) A B) \<and>
   rightPulses (rightEncoderISR A B e)
     = rightPulses e + word_of_int (spec_delta (rightInverted e) A B)"
proof -
  have l: "leftPulses (enc_run (resetBoth e) evs)
             = word_of_int (sum_list (left_deltas (leftInverted e) evs))"
    using enc_run_left [of "resetBoth e" evs] by (simp add: resetBoth_def)
  have r: "rightPulses (enc_run (resetBoth e) evs)
             = word_of_int (sum_list (right_deltas (rightInverted e) evs))"
    using enc_run_right [of "resetBoth e" evs] by (simp add: resetBoth_def)
  have isr: "leftPulses (leftEncoderISR A B e)
               = leftPulses e + word_of_int (spec_delta (leftInverted e) A B)"
            "rightPulses (rightEncoderISR A B e)
               = rightPulses e + word_of_int (spec_delta (rightInverted e) A B)"
    by (simp_all add: leftEncoderISR_def rightEncoderISR_def spec_delta_def Let_def)
  have flip: "spec_delta True A B = - spec_delta False A B"
    by (simp add: spec_delta_def)
  show ?thesis
    unfolding readLeft_def readRight_def l r
    using isr flip by (simp add: sint_word_of_int_32)
qed

theorem encoder_read_is_signed_sum_witness:
  "readLeft (enc_run (resetBoth Encoder_init)
      [LeftEdge True False, LeftEdge True True, LeftEdge False True, RightEdge True False,
       SetLeftInv True, LeftEdge False True]) = 0 \<and>
   readRight (enc_run (resetBoth Encoder_init)
      [LeftEdge True False, LeftEdge True True, LeftEdge False True, RightEdge True False,
       SetLeftInv True, LeftEdge False True]) = - 1"
  using encoder_read_is_signed_sum [of Encoder_init
      "[LeftEdge True False, LeftEdge True True, LeftEdge False True, RightEdge True False,
        SetLeftInv True, LeftEdge False True]"]
  by (simp add: Encoder_init_def spec_delta_def)

text \<open>
  The calibrated pulses per revolution start positive and stay positive: the setter ignores
  values that are not, and the interrupt handlers do not touch them.
\<close>

lemma pulsesPerRevolution_positive:
  "0 < pulsesPerRevolution Encoder_init"
  "0 < pulsesPerRevolution e \<Longrightarrow> 0 < pulsesPerRevolution (setPulsesPerRevolution v e)"
  "pulsesPerRevolution (enc_step e ev) = pulsesPerRevolution e"
  by (cases ev;
      simp add: Encoder_init_def DEFAULT_PULSES_PER_REVOLUTION_def setPulsesPerRevolution_def
        leftEncoderISR_def rightEncoderISR_def setLeftInverted_def setRightInverted_def Let_def)+

section \<open>Properties of the odometry\<close>












section \<open>Properties of the sketch\<close>

subsection \<open>Automatic turns and the obstacle debounce\<close>

lemma startAutoTurn_routeExec [simp]: "routeExec (startAutoTurn e a s) = routeExec s"
  by (simp add: startAutoTurn_def Let_def)

lemma startAutoTurn_encoders [simp]: "encoders (startAutoTurn e a s) = encoders s"
  by (simp add: startAutoTurn_def Let_def)

lemma startAutoTurn_turning [simp]: "turningInProgress (startAutoTurn e a s)"
  by (simp add: startAutoTurn_def Let_def)

lemma startAutoTurn_starts [simp]:
  "turnStartLeft0 (startAutoTurn e a s) = readLeft (encoders s)"
  "turnStartRight0 (startAutoTurn e a s) = readRight (encoders s)"
  "turnStartTime (startAutoTurn e a s) = millis e"
  by (simp_all add: startAutoTurn_def Let_def)

lemma c_trunc_half_round: "0 \<le> x \<Longrightarrow> c_trunc (x + 0.5) = round x"
  by (simp add: c_trunc_def round_def)

lemma startAutoTurn_target:
  assumes "0 \<le> pulsesPerRevolution (encoders s)"
  shows "turnTargetPulses (startAutoTurn e angleDelta s) =
           round (\<bar>angleDelta\<bar> * real_of_int (pulsesPerRevolution (encoders s)) * WHEEL_BASE_CM
                    / (360 * WHEEL_DIAMETER_CM))"
proof -
  have "0 \<le> \<bar>angleDelta\<bar> * real_of_int (pulsesPerRevolution (encoders s)) * WHEEL_BASE_CM
               / (360 * WHEEL_DIAMETER_CM)"
    using assms by (simp add: WHEEL_BASE_CM_def WHEEL_DIAMETER_CM_def)
  from c_trunc_half_round [OF this] show ?thesis
    by (simp add: startAutoTurn_def Let_def getPulsesPerRevolution_def)
qed

lemma if_gt_max: "(if b < a then a else b) = max (a::int) b"
  by (simp add: max_def)

lemma handleAutoTurn_reached:
  assumes "turningInProgress s"
    and "turnTargetPulses s \<le> max \<bar>readLeft (encoders s) - turnStartLeft0 s\<bar>
                                   \<bar>readRight (encoders s) - turnStartRight0 s\<bar>"
  shows "\<not> turningInProgress (handleAutoTurn e s)"
    and "motors (handleAutoTurn e s) = stop (motors s)"
    and "serialLog (handleAutoTurn e s) = ''OK'' # serialLog s"
    and "obstacleState (routeExec (handleAutoTurn e s)) = obstacleState (routeExec s)"
    and "obstacleActive (routeExec (handleAutoTurn e s)) = obstacleActive (routeExec s)"
  using assms by (simp_all add: handleAutoTurn_def Let_def if_gt_max)

lemma handleAutoTurn_obstacle_turn:
  assumes "turningInProgress s"
    and "max \<bar>readLeft (encoders s) - turnStartLeft0 s\<bar>
             \<bar>readRight (encoders s) - turnStartRight0 s\<bar> < turnTargetPulses s"
    and "obstacleActive (routeExec s)"
    and "obstacleState (routeExec s) = 1 \<or> obstacleState (routeExec s) = 3"
  shows "turningInProgress (handleAutoTurn e s)"
    and "obstacleState (routeExec (handleAutoTurn e s)) = obstacleState (routeExec s) + 1"
    and "motors (handleAutoTurn e s) = moveForward DEFAULT_SPEED (motors s)"
    and "obstacleMoveStartLeft (routeExec (handleAutoTurn e s)) = readLeft (encoders s)"
    and "obstacleMoveStartRight (routeExec (handleAutoTurn e s)) = readRight (encoders s)"
  using assms by (auto simp add: handleAutoTurn_def Let_def if_gt_max)

lemma startAutoTurn_wallFollow [simp]: "wallFollow (startAutoTurn e a s) = wallFollow s"
  by (simp add: startAutoTurn_def Let_def)

lemma beginNextWaypoint_wallFollow [simp]:
  "wallFollow (beginNextWaypoint rt e s) = wallFollow s"
  by (simp add: beginNextWaypoint_def stopRouteExecution_def finishTurn_def Let_def)

lemma beginNextWaypoint_obstacleActive [simp]:
  "obstacleActive (routeExec (beginNextWaypoint rt e s)) = obstacleActive (routeExec s)"
  by (simp add: beginNextWaypoint_def stopRouteExecution_def finishTurn_def Let_def)

lemma computeMove_simps [simp]:
  "obstacleActive (routeExec (computeMove s)) = obstacleActive (routeExec s)"
  "motors (computeMove s) = motors s"
  by (simp_all add: computeMove_def Let_def)






lemma startRouteExecution_rejected:
  "active (routeExec s) \<or> routeIndex' < 0 \<or> ROUTE_COUNT rt \<le> routeIndex' \<Longrightarrow>
     startRouteExecution rt e routeIndex' retorno d s = (False, s)"
  by (auto simp add: startRouteExecution_def)

lemma confirm_route_rejected:
  "\<not> (active (routeExec s) \<and> state (routeExec s) = ROUTE_WAITING \<and> awaitingConfirm (routeExec s))
     \<Longrightarrow> confirm_route rt e s = ((409, ''NO_SCHEDULE''), s)"
  by (auto simp add: confirm_route_def)

lemma startWallFollowing_exclusive:
  "\<not> active (routeExec (startWallFollowing side s)) \<and>
   wf_active (wallFollow (startWallFollowing side s))"
  by (simp add: startWallFollowing_def stopWallFollowing_def stopRouteExecution_def Let_def)

lemma startRouteExecution_wallFollow:
  "wallFollow (snd (startRouteExecution rt e i r d s)) = wallFollow s"
  by (simp add: startRouteExecution_def Let_def)

subsection \<open>Waypoint selection\<close>








subsection \<open>How the loop advances through a leg\<close>

lemma beginNextWaypoint_keeps:
  "currentPoint (routeExec (beginNextWaypoint rt e s)) = currentPoint (routeExec s)"
  "routeIndex (routeExec (beginNextWaypoint rt e s)) = routeIndex (routeExec s)"
  "direction (routeExec (beginNextWaypoint rt e s)) = direction (routeExec s)"
  by (simp_all add: beginNextWaypoint_def stopRouteExecution_def finishTurn_def Let_def)

lemma computeMove_keeps:
  "currentPoint (routeExec (computeMove s)) = currentPoint (routeExec s)"
  "routeIndex (routeExec (computeMove s)) = routeIndex (routeExec s)"
  "direction (routeExec (computeMove s)) = direction (routeExec s)"
  "targetX (routeExec (computeMove s)) = targetX (routeExec s)"
  "targetY (routeExec (computeMove s)) = targetY (routeExec s)"
  by (simp_all add: computeMove_def Let_def)

text \<open>
  One pass of the route block either keeps the waypoint counter and the target, or it is a
  call of \<^verbatim>\<open>beginNextWaypoint\<close>: at the end of the initial wait with the counter as it is, and
  otherwise with the counter advanced by one.
\<close>

lemma routeStateMachine_advances_by_beginNextWaypoint:
  "(currentPoint (routeExec (routeStateMachine rt e s)) = currentPoint (routeExec s) \<and>
    targetX (routeExec (routeStateMachine rt e s)) = targetX (routeExec s) \<and>
    targetY (routeExec (routeStateMachine rt e s)) = targetY (routeExec s)) \<or>
   (state (routeExec s) = ROUTE_WAITING \<and> routeStateMachine rt e s = beginNextWaypoint rt e s) \<or>
   (\<exists>s'. routeStateMachine rt e s = beginNextWaypoint rt e s' \<and>
         currentPoint (routeExec s') = currentPoint (routeExec s) + 1 \<and>
         routeIndex (routeExec s') = routeIndex (routeExec s) \<and>
         direction (routeExec s') = direction (routeExec s))"
proof (cases "active (routeExec s)")
  case False
  then show ?thesis by (simp add: routeStateMachine_def)
next
  case True
  show ?thesis
  proof (cases "state (routeExec s)")
    case ROUTE_IDLE
    then show ?thesis using True by (simp add: routeStateMachine_def)
  next
    case ROUTE_WAITING
    then show ?thesis using True by (simp add: routeStateMachine_def)
  next
    case ROUTE_TURNING
    show ?thesis
    proof (cases "\<not> turningInProgress s \<and> moveTargetPulses (routeExec (computeMove s)) \<le> 0")
      case True
      with \<open>active (routeExec s)\<close> ROUTE_TURNING
      have "routeStateMachine rt e s = beginNextWaypoint rt e
              ((computeMove s)\<lparr>routeExec := (routeExec (computeMove s))
                 \<lparr>currentPoint := currentPoint (routeExec (computeMove s)) + 1\<rparr>\<rparr>)"
        by (simp add: routeStateMachine_def Let_def)
      then show ?thesis
        by (intro disjI2 exI [of _ "(computeMove s)\<lparr>routeExec := (routeExec (computeMove s))
                 \<lparr>currentPoint := currentPoint (routeExec (computeMove s)) + 1\<rparr>\<rparr>"])
          (simp add: computeMove_keeps)
    next
      case False
      with \<open>active (routeExec s)\<close> ROUTE_TURNING show ?thesis
        by (auto simp add: routeStateMachine_def Let_def computeMove_keeps)
    qed
  next
    case ROUTE_MOVING
    let ?normal = "\<not> obstacleActive (routeExec s) \<and> \<not> obstacleWaitActive (routeExec s) \<and>
        \<not> min (distanciaSamples e IR_FRONT_LEFT_PIN) (distanciaSamples e IR_FRONT_RIGHT_PIN)
             \<le> OBSTACLE_THRESHOLD_CM \<and>
        moveTargetPulses (routeExec s)
          \<le> max \<bar>readLeft (encoders s) - moveStartLeft (routeExec s)\<bar>
                \<bar>readRight (encoders s) - moveStartRight (routeExec s)\<bar>"
    let ?s1 = "s\<lparr>motors := stop (motors s),
                  routeExec := (routeExec s)\<lparr>obstacleState := 5, obstacleActive := False\<rparr>\<rparr>"
    let ?crossed = "obstacleActive (routeExec s) \<and> obstacleState (routeExec s) = 4 \<and>
        obstacleMoveTargetPulses (routeExec s)
          \<le> max \<bar>readLeft (encoders s) - obstacleMoveStartLeft (routeExec s)\<bar>
                \<bar>readRight (encoders s) - obstacleMoveStartRight (routeExec s)\<bar> \<and>
        moveTargetPulses (routeExec (computeMove ?s1)) \<le> 0"
    show ?thesis
    proof (cases ?normal)
      case True
      let ?s' = "s\<lparr>motors := stop (motors s),
                    routeExec := (routeExec s)\<lparr>currentPoint := currentPoint (routeExec s) + 1\<rparr>\<rparr>"
      from True \<open>active (routeExec s)\<close> ROUTE_MOVING
      have "routeStateMachine rt e s = beginNextWaypoint rt e ?s'"
        by (simp add: routeStateMachine_def Let_def if_gt_max)
      then show ?thesis
        by (intro disjI2 exI [of _ ?s']) simp
    next
      case False
      note not_normal = this
      show ?thesis
      proof (cases ?crossed)
        case True
        let ?s' = "(computeMove ?s1)\<lparr>routeExec := (routeExec (computeMove ?s1))
                     \<lparr>currentPoint := currentPoint (routeExec (computeMove ?s1)) + 1\<rparr>\<rparr>"
        from True \<open>active (routeExec s)\<close> ROUTE_MOVING
        have "routeStateMachine rt e s = beginNextWaypoint rt e ?s'"
          by (simp add: routeStateMachine_def Let_def if_gt_max)
        then show ?thesis
          by (intro disjI2 exI [of _ ?s']) (simp add: computeMove_keeps)
      next
        case False
        with not_normal \<open>active (routeExec s)\<close> ROUTE_MOVING
        have "currentPoint (routeExec (routeStateMachine rt e s)) = currentPoint (routeExec s) \<and>
              targetX (routeExec (routeStateMachine rt e s)) = targetX (routeExec s) \<and>
              targetY (routeExec (routeStateMachine rt e s)) = targetY (routeExec s)"
          by (cases "obstacleActive (routeExec s)"; cases "obstacleWaitActive (routeExec s)";
              cases "obstacleState (routeExec s) = 4";
              simp add: routeStateMachine_def Let_def if_gt_max computeMove_keeps; blast)
        then show ?thesis by blast
      qed
    qed
  next
    case ROUTE_DONE
    then show ?thesis using True by (simp add: routeStateMachine_def)
  qed
qed

subsection \<open>Concrete states\<close>

lemma routesPoints_simps:
  "ROUTE_COUNT routesPoints = 4"
  "routesPoints ! nat 0 = route0" "routesPoints ! nat 1 = route1"
  "routesCounts routesPoints 0 = 3" "routesCounts routesPoints 1 = 4"
  by (simp_all add: ROUTE_COUNT_def routesCounts_def routesPoints_def route0_def route1_def)


lemma moving_confirmed_eq:
  assumes "active (routeExec s)" "state (routeExec s) = ROUTE_MOVING"
    and "\<not> obstacleActive (routeExec s)" "obstacleWaitActive (routeExec s)"
    and "OBSTACLE_DETECTION_DELAY_MS \<le> millis e - obstacleWaitStartMillis (routeExec s)"
    and "min (distanciaResample e IR_FRONT_LEFT_PIN) (distanciaResample e IR_FRONT_RIGHT_PIN)
           \<le> OBSTACLE_THRESHOLD_CM"
    and "distanciaSamples e IR_LEFT_SIDE_PIN > distanciaSamples e IR_RIGHT_SIDE_PIN"
  shows "routeStateMachine rt e s =
           startAutoTurn e 90
             (s\<lparr>routeExec := (routeExec s)
                  \<lparr>obstacleWaitActive := False, obstacleSide := 1, obstacleActive := True,
                   obstacleState := 1, obstacleProbePin := IR_RIGHT_SIDE_PIN,
                   obstacleMoveMaxPulses := c_trunc ((AVOID_MAX_STEP_CM / WHEEL_CIRCUMFERENCE_CM)
                      * real_of_int (getPulsesPerRevolution (encoders s)) + 0.5)\<rparr>,
                motors := stop (motors s)\<rparr>)"
  using assms by (simp add: routeStateMachine_def Let_def)

lemma moving_wait_simps:
  "active (routeExec moving_wait)" "state (routeExec moving_wait) = ROUTE_MOVING"
  "\<not> obstacleActive (routeExec moving_wait)" "obstacleWaitActive (routeExec moving_wait)"
  "obstacleWaitStartMillis (routeExec moving_wait) = 1000"
  "encoders moving_wait = Encoder_init"
  "serialLog moving_wait = []"
  by (simp_all add: moving_wait_def sketch0_def RouteExecution0_def)

lemma env_blocked_simps:
  "millis env_blocked = 3000"
  "distanciaResample env_blocked p = 25"
  "distanciaSamples env_blocked IR_LEFT_SIDE_PIN = 40"
  "distanciaSamples env_blocked IR_RIGHT_SIDE_PIN = 20"
  by (simp_all add: env_blocked_def IR_LEFT_SIDE_PIN_def IR_RIGHT_SIDE_PIN_def)

lemma turn_started_eq:
  "turn_started =
     startAutoTurn env_blocked 90
       (moving_wait\<lparr>routeExec := (routeExec moving_wait)
            \<lparr>obstacleWaitActive := False, obstacleSide := 1, obstacleActive := True,
             obstacleState := 1, obstacleProbePin := IR_RIGHT_SIDE_PIN,
             obstacleMoveMaxPulses := c_trunc ((AVOID_MAX_STEP_CM / WHEEL_CIRCUMFERENCE_CM)
                * real_of_int (getPulsesPerRevolution (encoders moving_wait)) + 0.5)\<rparr>,
          motors := stop (motors moving_wait)\<rparr>)"
  unfolding turn_started_def
  by (rule moving_confirmed_eq)
    (simp_all add: moving_wait_simps env_blocked_simps OBSTACLE_DETECTION_DELAY_MS_def
      OBSTACLE_THRESHOLD_CM_def)

lemma turn_started_simps:
  "turningInProgress turn_started"
  "obstacleActive (routeExec turn_started)"
  "obstacleState (routeExec turn_started) = 1"
  "encoders turn_started = Encoder_init"
  "turnStartLeft0 turn_started = 0"
  "turnStartRight0 turn_started = 0"
  "serialLog turn_started = []"
  by (simp_all add: turn_started_eq moving_wait_simps readLeft_def readRight_def Encoder_init_def
     startAutoTurn_def Let_def)

lemma turn_started_target: "turnTargetPulses turn_started = 3501"
proof -
  have "turnTargetPulses turn_started =
          round (\<bar>90\<bar> * real_of_int (pulsesPerRevolution Encoder_init) * WHEEL_BASE_CM
                    / (360 * WHEEL_DIAMETER_CM))"
    unfolding turn_started_eq
    by (subst startAutoTurn_target) (simp_all add: moving_wait_simps Encoder_init_def
        DEFAULT_PULSES_PER_REVOLUTION_def)
  also have "\<dots> = 3501"
    by (simp add: Encoder_init_def DEFAULT_PULSES_PER_REVOLUTION_def WHEEL_BASE_CM_def
        WHEEL_DIAMETER_CM_def round_def)
  finally show ?thesis .
qed

lemma turn_started_motors:
  "MOTOR_LEFT_LPWM (motors turn_started) = 80" "MOTOR_LEFT_RPWM (motors turn_started) = 0"
  "MOTOR_RIGHT_RPWM (motors turn_started) = 80" "MOTOR_RIGHT_LPWM (motors turn_started) = 0"
  by (simp_all add: turn_started_eq startAutoTurn_def Let_def setBothMotors_main_def
      setLeftMotor_def setRightMotor_main_def constrain_def TURN_SPEED_def MAX_SPEED_def
      MIN_SPEED_def)

lemma moveForward_pins:
  "MOTOR_LEFT_RPWM (moveForward DEFAULT_SPEED p) = 0"
  "MOTOR_LEFT_LPWM (moveForward DEFAULT_SPEED p) = 102"
  "MOTOR_RIGHT_RPWM (moveForward DEFAULT_SPEED p) = 0"
  "MOTOR_RIGHT_LPWM (moveForward DEFAULT_SPEED p) = 102"
  by (simp_all add: moveForward_def constrain_def DEFAULT_SPEED_def MIN_SPEED_def MAX_SPEED_def
      Let_def)

subsection \<open>Turns\<close>

text \<open>
  C1 at the failing input.  \<^verbatim>\<open>handleAutoTurn\<close> returns from its completion branch before it
  reaches the block that advances the avoidance phase, so that block runs only on passes in
  which the turn has not yet reached its pulse target.  In \<open>turn_started\<close> the avoidance has
  just been confirmed and the 90 degree turn started (target 3501 pulses, wheels counter-rotating
  at duty 80).  On the next pass, with no pulse counted yet, the phase goes from 1 to 2 and both
  wheels are driven forward at duty 102 while \<^verbatim>\<open>turningInProgress\<close> is still set.  When the
  pulses of the turn are covered while the phase is still 1 (\<open>turn_covered\<close>), the turn ends
  with \<^verbatim>\<open>OK\<close> and the phase stays 1.
\<close>

theorem obstacle_phase_advances_during_turn:
  "turningInProgress turn_started \<and>
   obstacleState (routeExec turn_started) = 1 \<and>
   turnTargetPulses turn_started = 3501 \<and>
   MOTOR_LEFT_LPWM (motors turn_started) = 80 \<and>
   MOTOR_RIGHT_RPWM (motors turn_started) = 80 \<and>
   turningInProgress (handleAutoTurn (env_blocked\<lparr>millis := 3005\<rparr>) turn_started) \<and>
   obstacleState (routeExec (handleAutoTurn (env_blocked\<lparr>millis := 3005\<rparr>) turn_started)) = 2 \<and>
   MOTOR_LEFT_RPWM (motors (handleAutoTurn (env_blocked\<lparr>millis := 3005\<rparr>) turn_started)) = 0 \<and>
   MOTOR_LEFT_LPWM (motors (handleAutoTurn (env_blocked\<lparr>millis := 3005\<rparr>) turn_started)) = 102 \<and>
   MOTOR_RIGHT_RPWM (motors (handleAutoTurn (env_blocked\<lparr>millis := 3005\<rparr>) turn_started)) = 0 \<and>
   MOTOR_RIGHT_LPWM (motors (handleAutoTurn (env_blocked\<lparr>millis := 3005\<rparr>) turn_started)) = 102 \<and>
   \<not> turningInProgress (handleAutoTurn (env_blocked\<lparr>millis := 4500\<rparr>) turn_covered) \<and>
   obstacleState (routeExec (handleAutoTurn (env_blocked\<lparr>millis := 4500\<rparr>) turn_covered)) = 1 \<and>
   serialLog (handleAutoTurn (env_blocked\<lparr>millis := 4500\<rparr>) turn_covered) = [''OK'']"
proof -
  have lt: "max \<bar>readLeft (encoders turn_started) - turnStartLeft0 turn_started\<bar>
                \<bar>readRight (encoders turn_started) - turnStartRight0 turn_started\<bar>
              < turnTargetPulses turn_started"
    by (simp add: turn_started_simps turn_started_target readLeft_def readRight_def
        Encoder_init_def)
  have one: "obstacleState (routeExec turn_started) = 1 \<or> obstacleState (routeExec turn_started) = 3"
    by (simp add: turn_started_simps)
  note adv = handleAutoTurn_obstacle_turn [OF turn_started_simps(1) lt turn_started_simps(2) one,
      of "env_blocked\<lparr>millis := 3005\<rparr>"]
  have c: "turningInProgress turn_covered"
      "turnTargetPulses turn_covered
         \<le> max \<bar>readLeft (encoders turn_covered) - turnStartLeft0 turn_covered\<bar>
               \<bar>readRight (encoders turn_covered) - turnStartRight0 turn_covered\<bar>"
      "obstacleState (routeExec turn_covered) = 1"
      "serialLog turn_covered = []"
    by (simp_all add: turn_covered_def turn_started_simps turn_started_target readLeft_def
        readRight_def)
  note fin = handleAutoTurn_reached [OF c(1,2), of "env_blocked\<lparr>millis := 4500\<rparr>"]
  show ?thesis
    using adv fin c(3,4)
    by (simp add: turn_started_simps turn_started_target turn_started_motors moveForward_pins)
qed



subsection \<open>Obstacle debounce\<close>



subsection \<open>Exclusion and rejected requests\<close>

text \<open>
  C2 at the failing input.  \<^verbatim>\<open>startRouteExecution\<close> never touches the wall-following state:
  started while wall-following along the left wall is active, it returns \<^verbatim>\<open>true\<close> and
  leaves both \<^verbatim>\<open>routeExec.active\<close> and \<^verbatim>\<open>wallFollow.active\<close> set.
\<close>

theorem route_start_leaves_wall_following_active:
  "wf_active (wallFollow following_left) \<and>
   fst (startRouteExecution routesPoints env0 0 False 1000 following_left) \<and>
   active (routeExec (snd (startRouteExecution routesPoints env0 0 False 1000 following_left))) \<and>
   wf_active (wallFollow (snd (startRouteExecution routesPoints env0 0 False 1000 following_left)))"
proof -
  have w: "\<not> active (routeExec following_left)" "wf_active (wallFollow following_left)"
    using startWallFollowing_exclusive [of 1 sketch0] by (simp_all add: following_left_def)
  have "fst (startRouteExecution routesPoints env0 0 False 1000 following_left) \<and>
        active (routeExec (snd (startRouteExecution routesPoints env0 0 False 1000 following_left)))"
    using w(1) by (simp add: startRouteExecution_def routesPoints_simps Let_def)
  then show ?thesis
    using w(2) by (simp add: startRouteExecution_wallFollow)
qed

text \<open>
  C7.  \<^verbatim>\<open>startRouteExecution\<close> returns \<^verbatim>\<open>false\<close> and leaves the whole state, and with it every
  member of the route-execution state, unchanged when a route is already active or the index is
  outside \<open>0 .. ROUTE_COUNT - 1\<close> (the \<^verbatim>\<open>/start_route\<close> request is then answered with
  \<^verbatim>\<open>409 BUSY\<close>); a \<^verbatim>\<open>/confirm_route\<close> request is answered with
  \<^verbatim>\<open>409 NO_SCHEDULE\<close> and changes nothing unless a route is active, waiting and awaiting
  confirmation, in particular when no confirmation is pending.
\<close>

theorem rejected_requests_change_nothing:
  "(active (routeExec s) \<or> routeIndex' < 0 \<or> ROUTE_COUNT rt \<le> routeIndex' \<longrightarrow>
      startRouteExecution rt e routeIndex' retorno d s = (False, s) \<and>
      start_route rt e routeIndex' retorno d s = ((409, ''BUSY''), s)) \<and>
   (\<not> (active (routeExec s) \<and> state (routeExec s) = ROUTE_WAITING \<and> awaitingConfirm (routeExec s))
      \<longrightarrow> confirm_route rt e s = ((409, ''NO_SCHEDULE''), s)) \<and>
   (\<not> awaitingConfirm (routeExec s) \<longrightarrow> confirm_route rt e s = ((409, ''NO_SCHEDULE''), s))"
proof -
  have "start_route rt e routeIndex' retorno d s = ((409, ''BUSY''), s)"
    if "startRouteExecution rt e routeIndex' retorno d s = (False, s)"
    using that by (simp add: start_route_def)
  then show ?thesis
    using startRouteExecution_rejected [of s routeIndex' rt e retorno d]
      confirm_route_rejected [of s rt e]
    by blast
qed

theorem rejected_requests_change_nothing_witness:
  "active (routeExec moving_wait) \<and> ROUTE_COUNT routesPoints \<le> 4 \<and>
   \<not> awaitingConfirm (routeExec sketch0) \<and>
   startRouteExecution routesPoints env0 1 True 0 moving_wait = (False, moving_wait) \<and>
   startRouteExecution routesPoints env0 4 False 0 sketch0 = (False, sketch0) \<and>
   startRouteExecution routesPoints env0 (- 1) False 0 sketch0 = (False, sketch0) \<and>
   confirm_route routesPoints env0 sketch0 = ((409, ''NO_SCHEDULE''), sketch0)"
  using rejected_requests_change_nothing [of moving_wait 1 routesPoints env0 True 0]
    rejected_requests_change_nothing [of sketch0 4 routesPoints env0 False 0]
    rejected_requests_change_nothing [of sketch0 "- 1" routesPoints env0 False 0]
  by (simp add: moving_wait_def sketch0_def RouteExecution0_def routesPoints_simps)

subsection \<open>Waypoint order\<close>









end
